theory Spec2Isabelle
  imports Complex_Main
begin

section \<open>Python primitives used by the training script\<close>

text \<open>
  The script \<^verbatim>\<open>train_finetune.py\<close> is one function, \<^verbatim>\<open>main\<close>: a start-up
  phase, then for each epoch a loop over training batches, a validation pass and a checkpoint.
  The neural networks, autograd and the data loader are outside the script. What they hand to
  the script (lengths, loss values, gradients, random integers) is an input of the model;
  everything the script itself decides (branches, arithmetic on lengths, which optimizer is
  stepped, how gradients are rescaled, what is logged and saved) is computed by the definitions
  below. Exceptions that the script does not catch end the run and are the \<open>Inl\<close> results.
\<close>

datatype py_error =
  ValueError | ZeroDivisionError | RuntimeError | KeyError | AttributeError | UnboundLocalError

definition bind_err :: "py_error + 'a \<Rightarrow> ('a \<Rightarrow> py_error + 'b) \<Rightarrow> py_error + 'b" where
  "bind_err m f = (case m of Inl e \<Rightarrow> Inl e | Inr x \<Rightarrow> f x)"

text \<open>\<^verbatim>\<open>int(x)\<close> on a float truncates toward zero.\<close>

definition py_int :: "real \<Rightarrow> int" where
  "py_int x = (if 0 \<le> x then \<lfloor>x\<rfloor> else - \<lfloor>- x\<rfloor>)"

text \<open>
  The lengths of the utterances are Python integers, and lines 332, 333 and 341 take them
  through binary64 arithmetic: \<^verbatim>\<open>l / 2\<close> and \<^verbatim>\<open>l / 2 - 1\<close>. A binary64 number
  has 53 significant bits. \<open>excess_bits n\<close> is the number of low bits of \<open>n\<close> that do
  not fit, and \<open>round53 n\<close> is the integer with at most 53 significant bits nearest to
  \<open>n\<close>, ties going to the even significand. Below \<open>2 ^ 53 = 9007199254740992\<close> it is
  \<open>n\<close> itself.
\<close>

fun excess_bits :: "nat \<Rightarrow> nat" where
  "excess_bits n = (if n < 9007199254740992 then 0 else Suc (excess_bits (n div 2)))"

declare excess_bits.simps [simp del]

definition round53 :: "int \<Rightarrow> int" where
  "round53 n =
     (let a = nat \<bar>n\<bar>;
          k = excess_bits a;
          q = a div 2 ^ k;
          r = a mod 2 ^ k;
          up = (2 * r > 2 ^ k \<or> (2 * r = 2 ^ k \<and> odd q))
      in sgn n * int ((if up then q + 1 else q) * 2 ^ k))"

text \<open>
  \<^verbatim>\<open>l / 2\<close> for a Python integer \<open>l\<close>: the binary64 number nearest to the quotient,
  which is half of the nearest integer of 53 bits. \<^verbatim>\<open>x - 1\<close> for such a quotient
  \<open>x\<close>, a multiple of one half: the exact difference is again a multiple of one half and
  is rounded in the same way.
\<close>

definition float_half :: "int \<Rightarrow> real" where
  "float_half l = of_int (round53 l) / 2"

definition float_minus_one :: "real \<Rightarrow> real" where
  "float_minus_one x = of_int (round53 (\<lfloor>2 * x\<rfloor> - 2)) / 2"

text \<open>
  \<^verbatim>\<open>np.random.randint(low, high)\<close> raises \<^verbatim>\<open>ValueError\<close> when \<open>high \<le> low\<close> and
  otherwise returns an integer of \<open>[low, high)\<close>; the third argument is the entropy
  the generator spends on the draw.
\<close>

definition randint :: "int \<Rightarrow> int \<Rightarrow> nat \<Rightarrow> py_error + int" where
  "randint low high e =
     (if high \<le> low then Inl ValueError else Inr (low + int e mod (high - low)))"

text \<open>The length of \<^verbatim>\<open>x[a:b]\<close> along an axis of length \<open>n\<close> (negative bounds count
  from the end, bounds are clamped, an empty range has length 0).\<close>

definition py_slice_len :: "int \<Rightarrow> int \<Rightarrow> int \<Rightarrow> int" where
  "py_slice_len n a b =
     (let start = (if a < 0 then max (a + n) 0 else min a n);
          stop = (if b < 0 then max (b + n) 0 else min b n)
      in max (stop - start) 0)"

text \<open>\<^verbatim>\<open>torch.stack\<close> needs at least one tensor and equal sizes; the argument is the
  list of the sizes along the last axis, the result is the common one.\<close>

definition stack_width :: "int list \<Rightarrow> py_error + int" where
  "stack_width ws =
     (case ws of
        [] \<Rightarrow> Inl RuntimeError
      | w # rest \<Rightarrow> if list_all (\<lambda>v. v = w) rest then Inr w else Inl RuntimeError)"

section \<open>Segment sampling (lines 332--366)\<close>

text \<open>
  One utterance of a batch: its valid mel length \<^verbatim>\<open>mel_input_length[bib]\<close> and the
  number of samples of its waveform \<^verbatim>\<open>waves[bib]\<close>.
\<close>

record utterance =
  mel_input_length :: int
  wave_length :: int

text \<open>
  The loop of lines 340--359 for the utterances that remain, with the crop lengths
  \<open>mel_len\<close> and \<open>mel_len_st\<close> of lines 332--333. Each utterance spends two draws:
  the offset of the reconstruction crop and the offset of the style-reference crop.
\<close>

fun crop_offsets :: "int \<Rightarrow> int \<Rightarrow> (nat \<Rightarrow> nat) \<Rightarrow> nat \<Rightarrow> int list \<Rightarrow> py_error + (int \<times> int) list" where
  "crop_offsets mel_len mel_len_st draw k [] = Inr []"
| "crop_offsets mel_len mel_len_st draw k (l # ls) =
     (let mel_length = py_int (float_half l) in
      case randint 0 (mel_length - mel_len) (draw k) of
        Inl e \<Rightarrow> Inl e
      | Inr random_start \<Rightarrow>
          (case randint 0 (mel_length - mel_len_st) (draw (k + 1)) of
             Inl e \<Rightarrow> Inl e
           | Inr random_start_st \<Rightarrow>
               (case crop_offsets mel_len mel_len_st draw (k + 2) ls of
                  Inl e \<Rightarrow> Inl e
                | Inr rest \<Rightarrow> Inr ((random_start, random_start_st) # rest))))"

text \<open>Lines 332--359: the crop lengths from the shortest utterance of the batch
  (\<^verbatim>\<open>.min()\<close> of an empty tensor raises), then the offsets.\<close>

definition sample_offsets :: "int \<Rightarrow> int list \<Rightarrow> (nat \<Rightarrow> nat) \<Rightarrow> py_error + (int \<times> int \<times> (int \<times> int) list)" where
  "sample_offsets max_len lens draw =
     (if lens = [] then Inl RuntimeError
      else
        let mel_len_st = py_int (float_minus_one (float_half (min_list lens)));
            mel_len = min (py_int (float_minus_one (float_half (min_list lens)))) (max_len div 2)
        in bind_err (crop_offsets mel_len mel_len_st draw 0 lens)
             (\<lambda>offs. Inr (mel_len, mel_len_st, offs)))"

text \<open>The stacked crops of lines 361--366, by the size of their last axis.\<close>

record segments =
  mel_len :: int
  mel_len_st :: int
  offsets :: "(int \<times> int) list"
  wav_size :: int
  en_size :: int
  p_en_size :: int
  gt_size :: int
  st_size :: int

text \<open>
  Lines 332--366. \<open>mels_width\<close>, \<open>asr_width\<close> and \<open>p_width\<close> are the lengths of
  the last axis of \<^verbatim>\<open>mels\<close>, \<^verbatim>\<open>asr\<close> and \<^verbatim>\<open>p\<close>. Slicing never raises; stacking
  crops of different sizes does.
\<close>

definition sample_segments :: "int \<Rightarrow> int \<Rightarrow> int \<Rightarrow> int \<Rightarrow> utterance list \<Rightarrow> (nat \<Rightarrow> nat) \<Rightarrow> py_error + segments" where
  "sample_segments max_len mels_width asr_width p_width utts draw =
     bind_err (sample_offsets max_len (map mel_input_length utts) draw)
       (\<lambda>(ml, ml_st, offs).
          bind_err (stack_width (map (\<lambda>(u, random_start, random_start_st).
                      py_slice_len (wave_length u) ((random_start * 2) * 300) (((random_start + ml) * 2) * 300))
                    (zip utts offs)))
       (\<lambda>wav_w.
          bind_err (stack_width (map (\<lambda>(random_start, random_start_st).
                      py_slice_len asr_width random_start (random_start + ml)) offs))
       (\<lambda>en_w.
          bind_err (stack_width (map (\<lambda>(random_start, random_start_st).
                      py_slice_len p_width random_start (random_start + ml)) offs))
       (\<lambda>p_en_w.
          bind_err (stack_width (map (\<lambda>(random_start, random_start_st).
                      py_slice_len mels_width (random_start * 2) ((random_start + ml) * 2)) offs))
       (\<lambda>gt_w.
          bind_err (stack_width (map (\<lambda>(random_start, random_start_st).
                      py_slice_len mels_width (random_start_st * 2) ((random_start_st + ml_st) * 2)) offs))
       (\<lambda>st_w.
          Inr \<lparr>mel_len = ml, mel_len_st = ml_st, offsets = offs, wav_size = wav_w,
               en_size = en_w, p_en_size = p_en_w, gt_size = gt_w, st_size = st_w\<rparr>))))))"

section \<open>The adversarial stage's gradient surgery (lines 498--529)\<close>

text \<open>
  A parameter of a unit: the path of its name inside the unit (for the predictor
  \<open>[''duration_proj'', ''linear_layer'', ''weight'']\<close> or \<open>[''lstm'', ''weight_ih_l0'']\<close>),
  \<^verbatim>\<open>requires_grad\<close>, and \<^verbatim>\<open>p.grad\<close>: \<open>None\<close> or the entries of the gradient
  tensor. The model is the dictionary of its units, in the order of \<^verbatim>\<open>model.keys()\<close>,
  each unit with the list \<^verbatim>\<open>model[key].parameters()\<close>.
\<close>

record param =
  pname :: "string list"
  requires_grad :: bool
  grad :: "real list option"

type_synonym model = "(string \<times> param list) list"

text \<open>
  The arithmetic that the script calls and does not define. A Python float and an entry of
  a tensor are numbers; what the operations of torch and of Python's floats return for them,
  rounding included, is given by:
  \<^item> \<open>tensor_norm g\<close>: \<^verbatim>\<open>g.detach().data.norm(2).item()\<close>;
  \<^item> \<open>tensor_mul g c\<close>: the tensor after \<^verbatim>\<open>g *= c\<close>;
  \<^item> \<open>float_square x\<close>: \<^verbatim>\<open>x ** 2\<close>; \<open>float_add x y\<close>: \<^verbatim>\<open>x + y\<close>;
    \<open>float_root x\<close>: \<^verbatim>\<open>x ** 0.5\<close>; \<open>float_recip x\<close>: \<^verbatim>\<open>1 / x\<close> for \<open>x \<noteq> 0\<close>;
  \<^item> \<open>loss_add x y\<close>: \<^verbatim>\<open>x + y\<close> for an accumulated loss \<open>x\<close> and a loss tensor
    \<open>y\<close>; \<open>loss_div x n\<close>: \<^verbatim>\<open>x / n\<close> for an accumulated loss and an integer.
\<close>

record numerics =
  tensor_norm :: "real list \<Rightarrow> real"
  tensor_mul :: "real list \<Rightarrow> real \<Rightarrow> real list"
  float_square :: "real \<Rightarrow> real"
  float_add :: "real \<Rightarrow> real \<Rightarrow> real"
  float_root :: "real \<Rightarrow> real"
  float_recip :: "real \<Rightarrow> real"
  loss_add :: "real \<Rightarrow> real \<Rightarrow> real"
  loss_div :: "real \<Rightarrow> int \<Rightarrow> real"

text \<open>The same operations without rounding.\<close>

definition l2_norm :: "real list \<Rightarrow> real" where
  "l2_norm g = sqrt (\<Sum>x\<leftarrow>g. x\<^sup>2)"

definition exact_numerics :: numerics where
  "exact_numerics =
     \<lparr>tensor_norm = l2_norm,
      tensor_mul = (\<lambda>g c. map (\<lambda>x. x * c) g),
      float_square = (\<lambda>x. x\<^sup>2),
      float_add = (\<lambda>x y. x + y),
      float_root = sqrt,
      float_recip = (\<lambda>x. 1 / x),
      loss_add = (\<lambda>x y. x + y),
      loss_div = (\<lambda>x n. x / of_int n)\<rparr>"

text \<open>
  Lines 501--510 for one unit: \<^verbatim>\<open>total_norm[key]\<close> starts at 0, every parameter that has
  a gradient and requires one adds the square of the norm of its gradient, and the total is
  raised to the power 0.5.
\<close>

definition counted :: "param \<Rightarrow> bool" where
  "counted p = (grad p \<noteq> None \<and> requires_grad p)"

definition param_norm :: "numerics \<Rightarrow> param \<Rightarrow> real" where
  "param_norm nm p = (case grad p of None \<Rightarrow> 0 | Some g \<Rightarrow> tensor_norm nm g)"

definition total_norm :: "numerics \<Rightarrow> param list \<Rightarrow> real" where
  "total_norm nm ps =
     float_root nm
       (foldl (\<lambda>acc p. float_add nm acc (float_square nm (param_norm nm p))) 0 (filter counted ps))"

text \<open>\<^verbatim>\<open>if p.grad is not None: p.grad *= c\<close>\<close>

definition scale_grad :: "numerics \<Rightarrow> real \<Rightarrow> param \<Rightarrow> param" where
  "scale_grad nm c p =
     (case grad p of None \<Rightarrow> p | Some g \<Rightarrow> p\<lparr>grad := Some (tensor_mul nm g c)\<rparr>)"

definition has_grad :: "model \<Rightarrow> bool" where
  "has_grad m = list_ex (\<lambda>(key, ps). list_ex (\<lambda>p. grad p \<noteq> None) ps) m"

text \<open>
  Lines 512--517. The test reads \<^verbatim>\<open>total_norm["predictor"]\<close>; the factor is
  \<^verbatim>\<open>1 / total_norm["predictor"]\<close>, evaluated at every parameter that has a gradient
  (a float division by zero raises at the first of them).
\<close>

definition gradient_scaling :: "numerics \<Rightarrow> real \<Rightarrow> model \<Rightarrow> py_error + model" where
  "gradient_scaling nm thresh m =
     (case map_of m ''predictor'' of
        None \<Rightarrow> Inl KeyError
      | Some ps \<Rightarrow>
          if total_norm nm ps > thresh then
            if total_norm nm ps = 0 \<and> has_grad m then Inl ZeroDivisionError
            else Inr (map (\<lambda>(key, qs).
                             (key, map (scale_grad nm (float_recip nm (total_norm nm ps))) qs)) m)
          else Inr m)"

text \<open>\<^verbatim>\<open>model.predictor.duration_proj.parameters()\<close> are the predictor's parameters
  whose path starts with \<open>duration_proj\<close>; likewise for \<open>lstm\<close>.\<close>

definition in_submodule :: "string \<Rightarrow> param \<Rightarrow> bool" where
  "in_submodule s p = (case pname p of [] \<Rightarrow> False | x # rest \<Rightarrow> x = s)"

definition scale_submodule :: "numerics \<Rightarrow> string \<Rightarrow> string \<Rightarrow> real \<Rightarrow> model \<Rightarrow> model" where
  "scale_submodule nm unit s c m =
     map (\<lambda>(key, ps). (key, if key = unit
                              then map (\<lambda>p. if in_submodule s p then scale_grad nm c p else p) ps
                              else ps)) m"

definition scale_unit :: "numerics \<Rightarrow> string \<Rightarrow> real \<Rightarrow> model \<Rightarrow> model" where
  "scale_unit nm unit c m =
     map (\<lambda>(key, ps). (key, if key = unit then map (scale_grad nm c) ps else ps)) m"

text \<open>Lines 519--529: the three loops, in the order of the source. \<^verbatim>\<open>model.diffusion\<close>
  raises when the model has no such unit.\<close>

definition amplify :: "numerics \<Rightarrow> real \<Rightarrow> model \<Rightarrow> py_error + model" where
  "amplify nm scale m =
     (let m1 = scale_submodule nm ''predictor'' ''duration_proj'' scale m;
          m2 = scale_submodule nm ''predictor'' ''lstm'' scale m1
      in if map_of m ''diffusion'' = None then Inl AttributeError
         else Inr (scale_unit nm ''diffusion'' scale m2))"

text \<open>Lines 498--529 on the gradients that \<^verbatim>\<open>loss_gen_lm.backward()\<close> left.\<close>

definition gradient_surgery :: "numerics \<Rightarrow> real \<Rightarrow> real \<Rightarrow> model \<Rightarrow> py_error + model" where
  "gradient_surgery nm thresh scale m =
     bind_err (gradient_scaling nm thresh m) (amplify nm scale)"

section \<open>Configuration and optimizer hyperparameters (lines 48--58, 136--168)\<close>

text \<open>The coefficients of \<^verbatim>\<open>loss_params\<close> that weigh the generator loss.\<close>

record loss_weights =
  lambda_mel :: real
  lambda_F0 :: real
  lambda_ce :: real
  lambda_norm :: real
  lambda_dur :: real
  lambda_gen :: real
  lambda_slm :: real
  lambda_sty :: real
  lambda_diff :: real
  lambda_mono :: real
  lambda_s2s :: real

text \<open>The resolved configuration, as \<^verbatim>\<open>main\<close> reads it from \<^verbatim>\<open>config\<close>.\<close>

record config =
  cfg_epochs :: int
  cfg_diff_epoch :: int
  cfg_joint_epoch :: int
  save_freq :: int
  log_interval :: int
  max_len :: int
  multispeaker :: bool
  estimate_sigma_data :: bool
  weights :: loss_weights
  slmadv_thresh :: real
  slmadv_scale :: real
  pretrained_model :: string
  second_stage_load_pretrained :: bool
  first_stage_path :: string
  load_only_params :: bool
  lr :: real
  bert_lr :: real
  ft_lr :: real

text \<open>
  A parameter group of a torch optimizer is a dictionary from the name of a hyperparameter
  to its setting. A setting is a number that comes from the configuration or from the
  optimizer's builder (\<open>Num\<close>), an integer literal of the script (\<open>Int_lit\<close>), a float
  literal of the script, given by the value that its decimal digits spell (\<open>Float_lit\<close>;
  \<open>Float_lit (9 / 10)\<close> is the float that Python reads from \<^verbatim>\<open>0.9\<close>), or a pair of
  settings. \<^verbatim>\<open>optimizer.optimizers\<close> maps the name of a unit to its optimizer, of which
  the script reads and writes \<^verbatim>\<open>param_groups\<close>.
\<close>

datatype hyper = Num real | Int_lit int | Float_lit rat | Tuple2 hyper hyper

type_synonym param_group = "string \<rightharpoonup> hyper"

type_synonym optimizers = "string \<rightharpoonup> param_group list"

text \<open>Lines 154--159, the body of the loop over the groups of \<^verbatim>\<open>bert\<close>.\<close>

definition adjust_bert :: "real \<Rightarrow> param_group \<Rightarrow> param_group" where
  "adjust_bert b_lr g =
     g(''betas'' \<mapsto> Tuple2 (Float_lit (9 / 10)) (Float_lit (99 / 100)),
       ''lr'' \<mapsto> Num b_lr,
       ''initial_lr'' \<mapsto> Num b_lr,
       ''min_lr'' \<mapsto> Int_lit 0,
       ''weight_decay'' \<mapsto> Float_lit (1 / 100))"

text \<open>Lines 163--168, the body of the loop over the groups of an acoustic module.\<close>

definition adjust_acoustic :: "real \<Rightarrow> param_group \<Rightarrow> param_group" where
  "adjust_acoustic f_lr g =
     g(''betas'' \<mapsto> Tuple2 (Float_lit 0) (Float_lit (99 / 100)),
       ''lr'' \<mapsto> Num f_lr,
       ''initial_lr'' \<mapsto> Num f_lr,
       ''min_lr'' \<mapsto> Int_lit 0,
       ''weight_decay'' \<mapsto> Float_lit (1 / 10000))"

text \<open>\<^verbatim>\<open>for g in optimizer.optimizers[key].param_groups: ...\<close>; a unit without an
  optimizer raises \<^verbatim>\<open>KeyError\<close>.\<close>

definition adjust_unit :: "string \<Rightarrow> (param_group \<Rightarrow> param_group) \<Rightarrow> optimizers \<Rightarrow> py_error + optimizers" where
  "adjust_unit key f opt =
     (case opt key of
        None \<Rightarrow> Inl KeyError
      | Some gs \<Rightarrow> Inr (opt(key \<mapsto> map f gs)))"

text \<open>Lines 153--168.\<close>

definition adjust_optimizers :: "real \<Rightarrow> real \<Rightarrow> optimizers \<Rightarrow> py_error + optimizers" where
  "adjust_optimizers b_lr f_lr opt =
     bind_err (adjust_unit ''bert'' (adjust_bert b_lr) opt)
       (\<lambda>opt1. bind_err (adjust_unit ''decoder'' (adjust_acoustic f_lr) opt1)
       (\<lambda>opt2. adjust_unit ''style_encoder'' (adjust_acoustic f_lr) opt2))"

section \<open>One training step (lines 220--585)\<close>

text \<open>
  The state that the script carries from step to step: the iteration counter, the running
  mel loss of the logging window, the sigma estimates of the diffusion unit, the gradients
  stored on the parameters, the hyperparameters of the optimizers, and the best validation
  loss (\<open>None\<close> is the initial \<^verbatim>\<open>float("inf")\<close>).
\<close>

record train_state =
  iters :: int
  running_loss :: real
  running_std :: "real list"
  sigma_data :: real
  grads :: model
  param_groups :: optimizers
  best_loss :: "real option"

text \<open>
  What the script does to the optimizer, to autograd and to the metric writer, in order:
  \<^verbatim>\<open>optimizer.zero_grad()\<close>, \<^verbatim>\<open>loss.backward()\<close> with the name and the number of the
  loss, \<^verbatim>\<open>optimizer.step(key)\<close>, the call of \<^verbatim>\<open>slmadv\<close>, and
  \<^verbatim>\<open>writer.add_scalar(tag, number, step)\<close>.
\<close>

datatype event =
  ZeroGrad
  | Backward string real
  | Step string
  | SlmAdv
  | AddScalar string real int

text \<open>What \<^verbatim>\<open>slmadv(...)\<close> returned, when it is not \<^verbatim>\<open>None\<close>, and the gradients that
  autograd stores for its two losses.\<close>

record slm_result =
  d_loss_slm :: real
  loss_gen_lm :: real
  gen_lm_grads :: model
  d_slm_grads :: model

text \<open>
  One batch of the training loader with what the networks, autograd and the random
  generators give for it: whether the block of the text aligner raises (lines 242--248),
  the utterances and the widths of the tensors that are cropped, the entropy of the crop
  draws, the sigma estimate of line 291, the two losses that the sampler and the diffusion
  unit compute when they run (lines 296--323), the other losses, the gradients stored after
  \<^verbatim>\<open>d_loss.backward()\<close> and after \<^verbatim>\<open>g_loss.backward()\<close>, and the result of
  \<^verbatim>\<open>slmadv\<close>.
\<close>

record batch =
  aligner_raises :: bool
  utts :: "utterance list"
  mels_width :: int
  asr_width :: int
  p_width :: int
  crop_draws :: "nat \<Rightarrow> nat"
  sigma_est :: real
  sampler_loss_diff :: real
  sampler_loss_sty :: real
  d_loss :: real
  loss_mel :: real
  loss_F0_rec :: real
  loss_ce :: real
  loss_norm_rec :: real
  loss_dur :: real
  loss_gen_all :: real
  loss_lm :: real
  loss_mono :: real
  loss_s2s :: real
  d_grads :: model
  g_grads :: model
  slm_out :: "slm_result option"

text \<open>The thresholds and bounds of the epoch loop, after the start-up adjusted them.\<close>

record curriculum =
  start_epoch :: int
  epochs :: int
  diff_epoch :: int
  joint_epoch :: int

text \<open>
  Lines 285--326: the pair \<open>(loss_sty, loss_diff)\<close> and the state. From \<open>diff_epoch\<close>
  on the losses are the ones the sampler and the diffusion unit compute, and the sigma
  estimate is stored and recorded when the configuration asks for it; before, both are 0.
\<close>

definition denoiser_training :: "config \<Rightarrow> curriculum \<Rightarrow> int \<Rightarrow> batch \<Rightarrow> train_state \<Rightarrow> (real \<times> real) \<times> train_state" where
  "denoiser_training cfg cur epoch b st =
     (if epoch \<ge> diff_epoch cur then
        ((sampler_loss_sty b, sampler_loss_diff b),
         (if estimate_sigma_data cfg
          then st\<lparr>sigma_data := sigma_est b, running_std := running_std st @ [sigma_est b]\<rparr>
          else st))
      else ((0, 0), st))"

text \<open>Lines 436--448.\<close>

definition g_loss :: "loss_weights \<Rightarrow> batch \<Rightarrow> real \<Rightarrow> real \<Rightarrow> real" where
  "g_loss w b loss_sty loss_diff =
     lambda_mel w * loss_mel b
     + lambda_F0 w * loss_F0_rec b
     + lambda_ce w * loss_ce b
     + lambda_norm w * loss_norm_rec b
     + lambda_dur w * loss_dur b
     + lambda_gen w * loss_gen_all b
     + lambda_slm w * loss_lm b
     + lambda_sty w * loss_sty
     + lambda_diff w * loss_diff
     + lambda_mono w * loss_mono b
     + lambda_s2s w * loss_s2s b"

text \<open>
  Lines 466--540: the adversarial stage, with the numbers \<open>(d_loss_slm, loss_gen_lm)\<close>
  that the logging reads. The argument \<^verbatim>\<open>ref if multispeaker else None\<close> reads a variable
  that only line 240 assigns, in a multi-speaker run from \<open>diff_epoch\<close> on.
\<close>

definition slm_stage :: "numerics \<Rightarrow> config \<Rightarrow> curriculum \<Rightarrow> int \<Rightarrow> batch \<Rightarrow> train_state \<Rightarrow> py_error + (train_state \<times> event list \<times> real \<times> real)" where
  "slm_stage nm cfg cur epoch b st =
     (if epoch \<ge> joint_epoch cur then
        if multispeaker cfg \<and> epoch < diff_epoch cur then Inl UnboundLocalError
        else
          (case slm_out b of
             None \<Rightarrow> Inr (st, [SlmAdv], 0, 0)
           | Some r \<Rightarrow>
               bind_err (gradient_surgery nm (slmadv_thresh cfg) (slmadv_scale cfg) (gen_lm_grads r))
                 (\<lambda>g.
                    let ev = [SlmAdv, ZeroGrad, Backward ''loss_gen_lm'' (loss_gen_lm r),
                              Step ''bert_encoder'', Step ''bert'', Step ''predictor'', Step ''diffusion'']
                    in if d_loss_slm r \<noteq> 0
                       then Inr (st\<lparr>grads := d_slm_grads r\<rparr>,
                                 ev @ [ZeroGrad, Backward ''d_loss_slm'' (d_loss_slm r), Step ''wd''],
                                 d_loss_slm r, loss_gen_lm r)
                       else Inr (st\<lparr>grads := g\<rparr>, ev, d_loss_slm r, loss_gen_lm r)))
      else Inr (st, [], 0, 0))"

text \<open>Lines 544--583: every \<open>log_interval\<close> steps the scalars are written and the running
  loss is reset; the remainder by a zero interval raises.\<close>

definition log_step :: "config \<Rightarrow> int \<Rightarrow> batch \<Rightarrow> real \<Rightarrow> real \<Rightarrow> real \<Rightarrow> real \<Rightarrow> train_state \<Rightarrow> py_error + (train_state \<times> event list)" where
  "log_step cfg i b loss_sty loss_diff dls lgl st =
     (if log_interval cfg = 0 then Inl ZeroDivisionError
      else if (i + 1) mod log_interval cfg = 0 then
        Inr (st\<lparr>running_loss := 0\<rparr>,
             [AddScalar ''train/mel_loss'' (running_loss st / of_int (log_interval cfg)) (iters st),
              AddScalar ''train/gen_loss'' (loss_gen_all b) (iters st),
              AddScalar ''train/d_loss'' (d_loss b) (iters st),
              AddScalar ''train/ce_loss'' (loss_ce b) (iters st),
              AddScalar ''train/dur_loss'' (loss_dur b) (iters st),
              AddScalar ''train/slm_loss'' (loss_lm b) (iters st),
              AddScalar ''train/norm_loss'' (loss_norm_rec b) (iters st),
              AddScalar ''train/F0_loss'' (loss_F0_rec b) (iters st),
              AddScalar ''train/sty_loss'' loss_sty (iters st),
              AddScalar ''train/diff_loss'' loss_diff (iters st),
              AddScalar ''train/d_loss_slm'' dls (iters st),
              AddScalar ''train/gen_loss_slm'' lgl (iters st)])
      else Inr (st, []))"

text \<open>Lines 453--464.\<close>

definition generator_steps :: "curriculum \<Rightarrow> int \<Rightarrow> event list" where
  "generator_steps cur epoch =
     [Step ''bert_encoder'', Step ''bert'', Step ''predictor'', Step ''predictor_encoder'',
      Step ''style_encoder'', Step ''decoder'', Step ''text_encoder'', Step ''text_aligner'']
     @ (if epoch \<ge> diff_epoch cur then [Step ''diffusion''] else [])"

text \<open>
  The body of the loop over the training batches (lines 220--585) for batch number \<open>i\<close>
  of epoch \<open>epoch\<close>: the new state and what the step did, in order. The two
  \<^verbatim>\<open>continue\<close> statements (lines 248 and 369) leave with the state as it is then.
\<close>

definition train_step :: "numerics \<Rightarrow> config \<Rightarrow> curriculum \<Rightarrow> int \<Rightarrow> int \<Rightarrow> batch \<Rightarrow> train_state \<Rightarrow> py_error + (train_state \<times> event list)" where
  "train_step nm cfg cur epoch i b st =
     (if aligner_raises b then Inr (st, [])
      else
        (case denoiser_training cfg cur epoch b st of
           ((loss_sty, loss_diff), st1) \<Rightarrow>
             bind_err (sample_segments (max_len cfg) (mels_width b) (asr_width b) (p_width b)
                         (utts b) (crop_draws b))
               (\<lambda>seg.
                  if gt_size seg < 80 then Inr (st1, [])
                  else
                    let ev_d = [ZeroGrad, Backward ''d_loss'' (d_loss b), Step ''msd'', Step ''mpd''];
                        ev_g = [ZeroGrad, Backward ''g_loss'' (g_loss (weights cfg) b loss_sty loss_diff)]
                               @ generator_steps cur epoch;
                        st2 = st1\<lparr>running_loss := running_loss st1 + loss_mel b, grads := g_grads b\<rparr>
                    in bind_err (slm_stage nm cfg cur epoch b st2)
                         (\<lambda>(st3, ev_slm, dls, lgl).
                            bind_err (log_step cfg i b loss_sty loss_diff dls lgl
                                        (st3\<lparr>iters := iters st3 + 1\<rparr>))
                              (\<lambda>(st4, ev_log). Inr (st4, ev_d @ ev_g @ ev_slm @ ev_log))))))"

text \<open>\<^verbatim>\<open>for i, batch in enumerate(train_dataloader)\<close>, from batch number \<open>i\<close> on.\<close>

fun train_loop :: "numerics \<Rightarrow> config \<Rightarrow> curriculum \<Rightarrow> int \<Rightarrow> int \<Rightarrow> batch list \<Rightarrow> train_state \<Rightarrow> py_error + (train_state \<times> event list)" where
  "train_loop nm cfg cur epoch i [] st = Inr (st, [])"
| "train_loop nm cfg cur epoch i (b # bs) st =
     (case train_step nm cfg cur epoch i b st of
        Inl e \<Rightarrow> Inl e
      | Inr (st1, ev1) \<Rightarrow>
          (case train_loop nm cfg cur epoch (i + 1) bs st1 of
             Inl e \<Rightarrow> Inl e
           | Inr (st2, ev2) \<Rightarrow> Inr (st2, ev1 @ ev2)))"

section \<open>Validation and checkpoint (lines 587--757)\<close>

text \<open>
  One batch of the validation loader: its three losses, and how its pass through the
  \<^verbatim>\<open>try\<close> of lines 597--721 ends. An exception skips the rest of the batch; one that
  is raised by the additions of lines 716--717 leaves the accumulators that were already
  updated.
\<close>

datatype val_outcome = Completed | Raised_before | Raised_after_mel | Raised_after_dur

record val_batch =
  val_outcome :: val_outcome
  val_loss_mel :: real
  val_loss_dur :: real
  val_loss_F0 :: real

text \<open>The accumulators \<open>(loss_test, loss_align, loss_f, iters_test)\<close> of lines 587--593
  over the validation batches (lines 715--719).\<close>

fun validation_pass :: "numerics \<Rightarrow> val_batch list \<Rightarrow> real \<times> real \<times> real \<times> int \<Rightarrow> real \<times> real \<times> real \<times> int" where
  "validation_pass nm [] acc = acc"
| "validation_pass nm (v # vs) (loss_test, loss_align, loss_f, iters_test) =
     validation_pass nm vs
       (case val_outcome v of
          Completed \<Rightarrow>
            (loss_add nm loss_test (val_loss_mel v), loss_add nm loss_align (val_loss_dur v),
             loss_add nm loss_f (val_loss_F0 v), iters_test + 1)
        | Raised_before \<Rightarrow> (loss_test, loss_align, loss_f, iters_test)
        | Raised_after_mel \<Rightarrow>
            (loss_add nm loss_test (val_loss_mel v), loss_align, loss_f, iters_test)
        | Raised_after_dur \<Rightarrow>
            (loss_add nm loss_test (val_loss_mel v), loss_add nm loss_align (val_loss_dur v),
             loss_f, iters_test))"

text \<open>
  Lines 723--732: the three scalars written after the validation pass of epoch \<open>epoch\<close>.
  The log line of lines 724--728 divides by \<open>iters_test\<close> first and raises when no
  validation batch went through.
\<close>

definition validation_report :: "numerics \<Rightarrow> int \<Rightarrow> real \<times> real \<times> real \<times> int \<Rightarrow> py_error + event list" where
  "validation_report nm epoch acc =
     (case acc of
        (loss_test, loss_align, loss_f, iters_test) \<Rightarrow>
          if iters_test = 0 then Inl ZeroDivisionError
          else Inr [AddScalar ''eval/mel_loss'' (loss_div nm loss_test iters_test) (epoch + 1),
                    AddScalar ''eval/dur_loss'' (loss_div nm loss_test iters_test) (epoch + 1),
                    AddScalar ''eval/F0_loss'' (loss_div nm loss_f iters_test) (epoch + 1)])"

text \<open>
  Modelled from the spec: \<^verbatim>\<open>optimizer.zero_grad()\<close> of the multi-optimizer
  (\<^verbatim>\<open>optimizers.py\<close>, not part of the script) "clears gradients across all units".
\<close>

definition zero_grad :: "model \<Rightarrow> model" where
  "zero_grad m = map (\<lambda>(key, ps). (key, map (\<lambda>p. p\<lparr>grad := None\<rparr>) ps)) m"

text \<open>The dictionary that line 746 saves, without the weights of the networks.\<close>

record checkpoint =
  ck_optimizer :: optimizers
  ck_iters :: int
  ck_val_loss :: real
  ck_epoch :: int

text \<open>Lines 734--746: every \<open>save_freq\<close> epochs the best loss is updated and the
  checkpoint is written. (Lines 748--757 then write the mean of the sigma estimates to the
  configuration file, which the run does not read again.)\<close>

definition save_checkpoint :: "numerics \<Rightarrow> config \<Rightarrow> int \<Rightarrow> real \<times> real \<times> real \<times> int \<Rightarrow> train_state \<Rightarrow> py_error + (train_state \<times> checkpoint option)" where
  "save_checkpoint nm cfg epoch acc st =
     (case acc of
        (loss_test, loss_align, loss_f, iters_test) \<Rightarrow>
          if save_freq cfg = 0 then Inl ZeroDivisionError
          else if (epoch + 1) mod save_freq cfg = 0 then
            if iters_test = 0 then Inl ZeroDivisionError
            else
              let val_loss = loss_div nm loss_test iters_test;
                  st1 = (case best_loss st of
                           None \<Rightarrow> st\<lparr>best_loss := Some val_loss\<rparr>
                         | Some bl \<Rightarrow> if val_loss < bl then st\<lparr>best_loss := Some val_loss\<rparr> else st)
              in Inr (st1, Some \<lparr>ck_optimizer = param_groups st1, ck_iters = iters st1,
                                  ck_val_loss = val_loss, ck_epoch = epoch\<rparr>)
          else Inr (st, None))"

text \<open>One pass of the epoch loop (lines 206--757): training, validation, checkpoint.\<close>

record epoch_data =
  train_batches :: "batch list"
  val_batches :: "val_batch list"

definition run_epoch :: "numerics \<Rightarrow> config \<Rightarrow> curriculum \<Rightarrow> int \<Rightarrow> epoch_data \<Rightarrow> train_state \<Rightarrow> py_error + (train_state \<times> event list \<times> checkpoint option)" where
  "run_epoch nm cfg cur epoch d st =
     bind_err (train_loop nm cfg cur epoch 0 (train_batches d) (st\<lparr>running_loss := 0\<rparr>))
       (\<lambda>(st1, ev_train).
          let acc = validation_pass nm (val_batches d) (0, 0, 0, 0);
              st2 = (if val_batches d = [] then st1 else st1\<lparr>grads := zero_grad (grads st1)\<rparr>);
              ev_zero = map (\<lambda>v. ZeroGrad) (val_batches d)
          in bind_err (validation_report nm epoch acc)
               (\<lambda>ev_val.
                  bind_err (save_checkpoint nm cfg epoch acc st2)
                    (\<lambda>(st3, ck). Inr (st3, ev_train @ ev_zero @ ev_val, ck))))"

text \<open>
  \<^verbatim>\<open>for epoch in range(start_epoch, epochs)\<close>, for the epochs that remain; \<open>ds\<close>
  gives for every epoch what its two loaders yield. The checkpoints are collected in the
  order they are written.
\<close>

fun run_epochs :: "numerics \<Rightarrow> config \<Rightarrow> curriculum \<Rightarrow> (int \<Rightarrow> epoch_data) \<Rightarrow> int list \<Rightarrow> train_state \<Rightarrow> py_error + (train_state \<times> event list \<times> checkpoint list)" where
  "run_epochs nm cfg cur ds [] st = Inr (st, [], [])"
| "run_epochs nm cfg cur ds (epoch # rest) st =
     (case run_epoch nm cfg cur epoch (ds epoch) st of
        Inl e \<Rightarrow> Inl e
      | Inr (st1, ev1, ck) \<Rightarrow>
          (case run_epochs nm cfg cur ds rest st1 of
             Inl e \<Rightarrow> Inl e
           | Inr (st2, ev2, cks) \<Rightarrow>
               Inr (st2, ev1 @ ev2, (case ck of None \<Rightarrow> [] | Some c \<Rightarrow> [c]) @ cks)))"

definition training_run :: "numerics \<Rightarrow> config \<Rightarrow> curriculum \<Rightarrow> (int \<Rightarrow> epoch_data) \<Rightarrow> train_state \<Rightarrow> py_error + (train_state \<times> event list \<times> checkpoint list)" where
  "training_run nm cfg cur ds st =
     run_epochs nm cfg cur ds [start_epoch cur..epochs cur - 1] st"

section \<open>Start-up (lines 43--203)\<close>

text \<open>The parameters of the learning-rate schedule of one unit (lines 136--141).\<close>

record scheduler_params =
  max_lr :: real
  pct_start :: real
  sched_epochs :: int
  steps_per_epoch :: int

text \<open>
  What the start-up takes from code outside the script: the dictionary of units that
  \<^verbatim>\<open>build_model\<close> returns, \<^verbatim>\<open>len(train_dataloader)\<close>, the sigma of the diffusion unit
  as built, the optimizers that \<^verbatim>\<open>build_optimizer\<close> returns for a dictionary of schedule
  parameters and a learning rate, the pair \<open>(start_epoch, iters)\<close> that
  \<^verbatim>\<open>load_checkpoint\<close> returns for the first-stage checkpoint (lines 93--108), and the triple
  \<open>(optimizer, start_epoch, iters)\<close> that it returns for the pretrained checkpoint, given
  the optimizer and \<^verbatim>\<open>load_only_params\<close> (lines 172--177).
\<close>

record externals =
  built_model :: model
  loader_length :: int
  built_sigma_data :: real
  build_optimizer :: "(string \<rightharpoonup> scheduler_params) \<Rightarrow> real \<Rightarrow> optimizers"
  first_stage_loaded :: "int \<times> int"
  pretrained_loaded :: "optimizers \<Rightarrow> bool \<Rightarrow> optimizers \<times> int \<times> int"

text \<open>Line 115: \<^verbatim>\<open>model.predictor_encoder = copy.deepcopy(model.style_encoder)\<close>.\<close>

definition copy_style_encoder :: "model \<Rightarrow> py_error + model" where
  "copy_style_encoder m =
     (case map_of m ''style_encoder'' of
        None \<Rightarrow> Inl AttributeError
      | Some ps \<Rightarrow>
          if ''predictor_encoder'' \<in> set (map fst m)
          then Inr (map (\<lambda>(key, qs). (key, if key = ''predictor_encoder'' then ps else qs)) m)
          else Inr (m @ [(''predictor_encoder'', ps)]))"

text \<open>\<^verbatim>\<open>model.mpd\<close> and the like raise when the dictionary has no such unit.\<close>

definition has_units :: "string list \<Rightarrow> model \<Rightarrow> bool" where
  "has_units keys m = list_all (\<lambda>key. map_of m key \<noteq> None) keys"

text \<open>
  Lines 80--117: the counters and thresholds with which the run starts, and the model. A
  run that does not load a pretrained model needs the first-stage checkpoint and counts its
  thresholds from the epoch that checkpoint gives.
\<close>

definition load_first_stage :: "config \<Rightarrow> externals \<Rightarrow> py_error + (curriculum \<times> int \<times> model)" where
  "load_first_stage cfg ext =
     (let load_pretrained = (pretrained_model cfg \<noteq> [] \<and> second_stage_load_pretrained cfg)
      in if \<not> load_pretrained then
           if first_stage_path cfg \<noteq> [] then
             (case first_stage_loaded ext of
                (s_epoch, its) \<Rightarrow>
                  bind_err (copy_style_encoder (built_model ext))
                    (\<lambda>m. Inr (\<lparr>start_epoch = s_epoch,
                                 epochs = cfg_epochs cfg + s_epoch,
                                 diff_epoch = cfg_diff_epoch cfg + s_epoch,
                                 joint_epoch = cfg_joint_epoch cfg + s_epoch\<rparr>, its, m)))
           else Inl ValueError
         else Inr (\<lparr>start_epoch = 0, epochs = cfg_epochs cfg, diff_epoch = cfg_diff_epoch cfg,
                     joint_epoch = cfg_joint_epoch cfg\<rparr>, 0, built_model ext))"

text \<open>\<^verbatim>\<open>scheduler_params_dict[key]["max_lr"] = v\<close>\<close>

definition set_max_lr :: "string \<Rightarrow> real \<Rightarrow> (string \<rightharpoonup> scheduler_params) \<Rightarrow> py_error + (string \<rightharpoonup> scheduler_params)" where
  "set_max_lr key v d =
     (case d key of
        None \<Rightarrow> Inl KeyError
      | Some sp \<Rightarrow> Inr (d(key \<mapsto> sp\<lparr>max_lr := v\<rparr>)))"

text \<open>Lines 136--145.\<close>

definition scheduler_params_dict :: "config \<Rightarrow> externals \<Rightarrow> int \<Rightarrow> model \<Rightarrow> py_error + (string \<rightharpoonup> scheduler_params)" where
  "scheduler_params_dict cfg ext n_epochs m =
     (let sp = \<lparr>max_lr = lr cfg, pct_start = 0, sched_epochs = n_epochs,
                 steps_per_epoch = loader_length ext\<rparr>
      in bind_err (set_max_lr ''bert'' (bert_lr cfg * 2) (map_of (map (\<lambda>(key, ps). (key, sp)) m)))
           (\<lambda>d1. bind_err (set_max_lr ''decoder'' (ft_lr cfg * 2) d1)
           (\<lambda>d2. set_max_lr ''style_encoder'' (ft_lr cfg * 2) d2)))"

text \<open>
  Lines 43--203: the thresholds of the epoch loop and the state with which the first epoch
  starts. Lines 119--134 read the units \<open>mpd\<close>, \<open>msd\<close>, \<open>wd\<close> and
  \<open>diffusion\<close>, line 179 reads \<open>text_aligner\<close>. Line 182 sets \<open>iters\<close> after both
  calls of \<^verbatim>\<open>load_checkpoint\<close>; lines 188--189 print the optimizers of \<open>bert\<close> and
  \<open>decoder\<close>.
\<close>

definition startup :: "config \<Rightarrow> externals \<Rightarrow> py_error + (curriculum \<times> train_state)" where
  "startup cfg ext =
     bind_err (load_first_stage cfg ext)
       (\<lambda>(cur, its, m).
          if \<not> has_units [''mpd'', ''msd'', ''wd'', ''diffusion''] m then Inl AttributeError
          else
          bind_err (scheduler_params_dict cfg ext (epochs cur) m)
       (\<lambda>spd.
          bind_err (adjust_optimizers (bert_lr cfg) (ft_lr cfg) (build_optimizer ext spd (lr cfg)))
       (\<lambda>opt.
          (case (if pretrained_model cfg \<noteq> [] \<and> second_stage_load_pretrained cfg
                 then (case pretrained_loaded ext opt (load_only_params cfg) of
                         (opt1, s_epoch, its1) \<Rightarrow> (opt1, cur\<lparr>start_epoch := s_epoch\<rparr>, its1))
                 else (opt, cur, its)) of
             (opt2, cur2, its2) \<Rightarrow>
               if \<not> has_units [''text_aligner''] m then Inl AttributeError
               else
               (let iters0 = 0 in
                if opt2 ''bert'' = None \<or> opt2 ''decoder'' = None then Inl KeyError
                else Inr (cur2, \<lparr>iters = iters0, running_loss = 0, running_std = [],
                                  sigma_data = built_sigma_data ext, grads = m,
                                  param_groups = opt2, best_loss = None\<rparr>))))))"

text \<open>
  Modelled from the spec: \<^verbatim>\<open>load_checkpoint\<close> of \<^verbatim>\<open>models.py\<close>, which is not part of the
  script. The spec gives it as "\<^verbatim>\<open>load(path) -> (unit_states, optimizer_state, start_epoch,
  start_iteration)\<close>" with a "params-only" mode that restores "weights, not optimizer
  state". The first argument is the checkpoint stored at the path.
\<close>

definition load_checkpoint_spec :: "checkpoint \<Rightarrow> optimizers \<Rightarrow> bool \<Rightarrow> optimizers \<times> int \<times> int" where
  "load_checkpoint_spec ck opt params_only =
     ((if params_only then opt else ck_optimizer ck), ck_epoch ck, ck_iters ck)"

text \<open>The whole of \<^verbatim>\<open>main\<close>.\<close>

definition main :: "numerics \<Rightarrow> config \<Rightarrow> externals \<Rightarrow> (int \<Rightarrow> epoch_data) \<Rightarrow> py_error + (train_state \<times> event list \<times> checkpoint list)" where
  "main nm cfg ext ds = bind_err (startup cfg ext) (\<lambda>(cur, st). training_run nm cfg cur ds st)"

section \<open>Concrete inputs\<close>

text \<open>
  A small run on which the definitions above are evaluated: the weights and thresholds of a
  fine-tuning configuration, a model whose units have one or a few parameters or none, and
  the optimizers an AdamW builder gives them.
\<close>

definition demo_weights :: loss_weights where
  "demo_weights =
     \<lparr>lambda_mel = 5, lambda_F0 = 1, lambda_ce = 20, lambda_norm = 1, lambda_dur = 1,
      lambda_gen = 1, lambda_slm = 1, lambda_sty = 1, lambda_diff = 1, lambda_mono = 1,
      lambda_s2s = 1\<rparr>"

definition demo_config :: config where
  "demo_config =
     \<lparr>cfg_epochs = 50, cfg_diff_epoch = 10, cfg_joint_epoch = 30, save_freq = 5,
      log_interval = 10, max_len = 400, multispeaker = False, estimate_sigma_data = True,
      weights = demo_weights, slmadv_thresh = 2, slmadv_scale = 1 / 100,
      pretrained_model = [], second_stage_load_pretrained = False,
      first_stage_path = ''first_stage.pth'', load_only_params = True,
      lr = 1 / 10000, bert_lr = 1 / 100000, ft_lr = 1 / 10000\<rparr>"

definition demo_curriculum :: curriculum where
  "demo_curriculum = \<lparr>start_epoch = 0, epochs = 50, diff_epoch = 10, joint_epoch = 30\<rparr>"

text \<open>
  The gradients of the demo model. The predictor has four parameters with the gradient
  \<open>[2]\<close> each, so its gradient norm is \<open>(4 + 4 + 4 + 4) ** 0.5 = 4\<close>, twice the threshold
  2 of the demo configuration. All numbers are small powers of two: the float operations
  of the script on them are exact.
\<close>

definition demo_predictor :: "param list" where
  "demo_predictor =
     [\<lparr>pname = [''duration_proj'', ''linear_layer'', ''weight''], requires_grad = True, grad = Some [2]\<rparr>,
      \<lparr>pname = [''lstm'', ''weight_ih_l0''], requires_grad = True, grad = Some [2]\<rparr>,
      \<lparr>pname = [''text_encoder'', ''lstms'', ''0'', ''weight_ih_l0''], requires_grad = True, grad = Some [2]\<rparr>,
      \<lparr>pname = [''F0_proj'', ''weight''], requires_grad = True, grad = Some [2]\<rparr>]"

definition demo_decoder :: "param list" where
  "demo_decoder = [\<lparr>pname = [''generator'', ''weight''], requires_grad = True, grad = Some [8]\<rparr>]"

definition demo_model :: model where
  "demo_model =
     [(''bert'', [\<lparr>pname = [''embeddings'', ''weight''], requires_grad = True, grad = None\<rparr>]),
      (''decoder'', demo_decoder),
      (''style_encoder'', [\<lparr>pname = [''unshared'', ''weight''], requires_grad = False, grad = Some [1]\<rparr>]),
      (''predictor'', demo_predictor),
      (''diffusion'', [\<lparr>pname = [''diffusion'', ''net'', ''weight''], requires_grad = True, grad = Some [16]\<rparr>]),
      (''mpd'', []), (''msd'', []), (''wd'', []), (''text_aligner'', [])]"

text \<open>The demo model after every gradient has been multiplied by \<open>1 / 4\<close>, and after the
  gradients of \<open>duration_proj\<close>, \<open>lstm\<close> and \<open>diffusion\<close> have then been multiplied
  by \<open>1 / 100\<close>.\<close>

definition demo_decoder_rescaled :: "param list" where
  "demo_decoder_rescaled = [\<lparr>pname = [''generator'', ''weight''], requires_grad = True, grad = Some [2]\<rparr>]"

definition demo_model_rescaled :: model where
  "demo_model_rescaled =
     [(''bert'', [\<lparr>pname = [''embeddings'', ''weight''], requires_grad = True, grad = None\<rparr>]),
      (''decoder'', demo_decoder_rescaled),
      (''style_encoder'', [\<lparr>pname = [''unshared'', ''weight''], requires_grad = False, grad = Some [1 / 4]\<rparr>]),
      (''predictor'',
         [\<lparr>pname = [''duration_proj'', ''linear_layer'', ''weight''], requires_grad = True, grad = Some [1 / 2]\<rparr>,
          \<lparr>pname = [''lstm'', ''weight_ih_l0''], requires_grad = True, grad = Some [1 / 2]\<rparr>,
          \<lparr>pname = [''text_encoder'', ''lstms'', ''0'', ''weight_ih_l0''], requires_grad = True, grad = Some [1 / 2]\<rparr>,
          \<lparr>pname = [''F0_proj'', ''weight''], requires_grad = True, grad = Some [1 / 2]\<rparr>]),
      (''diffusion'', [\<lparr>pname = [''diffusion'', ''net'', ''weight''], requires_grad = True, grad = Some [4]\<rparr>]),
      (''mpd'', []), (''msd'', []), (''wd'', []), (''text_aligner'', [])]"

definition demo_model_amplified :: model where
  "demo_model_amplified =
     [(''bert'', [\<lparr>pname = [''embeddings'', ''weight''], requires_grad = True, grad = None\<rparr>]),
      (''decoder'', demo_decoder_rescaled),
      (''style_encoder'', [\<lparr>pname = [''unshared'', ''weight''], requires_grad = False, grad = Some [1 / 4]\<rparr>]),
      (''predictor'',
         [\<lparr>pname = [''duration_proj'', ''linear_layer'', ''weight''], requires_grad = True, grad = Some [1 / 200]\<rparr>,
          \<lparr>pname = [''lstm'', ''weight_ih_l0''], requires_grad = True, grad = Some [1 / 200]\<rparr>,
          \<lparr>pname = [''text_encoder'', ''lstms'', ''0'', ''weight_ih_l0''], requires_grad = True, grad = Some [1 / 2]\<rparr>,
          \<lparr>pname = [''F0_proj'', ''weight''], requires_grad = True, grad = Some [1 / 2]\<rparr>]),
      (''diffusion'', [\<lparr>pname = [''diffusion'', ''net'', ''weight''], requires_grad = True, grad = Some [1 / 25]\<rparr>]),
      (''mpd'', []), (''msd'', []), (''wd'', []), (''text_aligner'', [])]"

definition demo_group :: "real \<Rightarrow> param_group" where
  "demo_group l =
     [''lr'' \<mapsto> Num l, ''betas'' \<mapsto> Tuple2 (Num 0) (Num (99 / 100)),
      ''weight_decay'' \<mapsto> Num (1 / 10000), ''eps'' \<mapsto> Num (1 / 1000000000)]"

definition demo_build_optimizer :: "(string \<rightharpoonup> scheduler_params) \<Rightarrow> real \<Rightarrow> optimizers" where
  "demo_build_optimizer spd l =
     (\<lambda>key. case spd key of None \<Rightarrow> None | Some sp \<Rightarrow> Some [demo_group l])"

definition demo_externals :: externals where
  "demo_externals =
     \<lparr>built_model = demo_model, loader_length = 100, built_sigma_data = 1 / 5,
      build_optimizer = demo_build_optimizer,
      first_stage_loaded = (5, 1000),
      pretrained_loaded = (\<lambda>opt params_only. (opt, 0, 0))\<rparr>"

definition demo_optimizers :: optimizers where
  "demo_optimizers =
     [''bert'' \<mapsto> [demo_group (1 / 10000)], ''decoder'' \<mapsto> [demo_group (1 / 10000)],
      ''style_encoder'' \<mapsto> [demo_group (1 / 10000)], ''predictor'' \<mapsto> [demo_group (1 / 10000)],
      ''diffusion'' \<mapsto> [demo_group (1 / 10000)]]"

definition demo_state :: train_state where
  "demo_state =
     \<lparr>iters = 7, running_loss = 3, running_std = [], sigma_data = 1 / 5, grads = demo_model,
      param_groups = demo_optimizers,
      best_loss = None\<rparr>"

text \<open>A batch of two utterances of 200 and 240 mel frames (crops of 198 frames), and one of a
  single utterance of 80 frames, whose crop is 78 frames wide.\<close>

definition demo_batch :: batch where
  "demo_batch =
     \<lparr>aligner_raises = False,
      utts = [\<lparr>mel_input_length = 200, wave_length = 60000\<rparr>,
              \<lparr>mel_input_length = 240, wave_length = 72000\<rparr>],
      mels_width = 240, asr_width = 120, p_width = 120,
      crop_draws = (\<lambda>k. 5),
      sigma_est = 1 / 4, sampler_loss_diff = 3, sampler_loss_sty = 2,
      d_loss = 1, loss_mel = 1, loss_F0_rec = 1, loss_ce = 1, loss_norm_rec = 1, loss_dur = 1,
      loss_gen_all = 1, loss_lm = 1, loss_mono = 1, loss_s2s = 1,
      d_grads = zero_grad demo_model, g_grads = demo_model,
      slm_out = Some \<lparr>d_loss_slm = 1, loss_gen_lm = 2, gen_lm_grads = demo_model,
                       d_slm_grads = zero_grad demo_model\<rparr>\<rparr>"

definition narrow_batch :: batch where
  "narrow_batch =
     demo_batch\<lparr>utts := [\<lparr>mel_input_length = 80, wave_length = 24000\<rparr>],
                 mels_width := 80, asr_width := 40, p_width := 40\<rparr>"

text \<open>The data of one epoch: the narrow batch for training, and three validation batches,
  of which the second raises.\<close>

definition demo_epoch :: epoch_data where
  "demo_epoch =
     \<lparr>train_batches = [narrow_batch],
      val_batches = [\<lparr>val_outcome = Completed, val_loss_mel = 2, val_loss_dur = 10, val_loss_F0 = 1\<rparr>,
                     \<lparr>val_outcome = Raised_before, val_loss_mel = 0, val_loss_dur = 0, val_loss_F0 = 0\<rparr>,
                     \<lparr>val_outcome = Completed, val_loss_mel = 4, val_loss_dur = 30, val_loss_F0 = 3\<rparr>]\<rparr>"

text \<open>
  A restart from a checkpoint of the second stage: the checkpoint that the demo state
  writes at the end of epoch 4, a configuration that loads it with its optimizer state,
  and a \<^verbatim>\<open>load_checkpoint\<close> that returns what the checkpoint holds.
\<close>

definition demo_checkpoint :: checkpoint where
  "demo_checkpoint = \<lparr>ck_optimizer = demo_optimizers, ck_iters = 7, ck_val_loss = 3, ck_epoch = 4\<rparr>"

definition resume_config :: config where
  "resume_config =
     demo_config\<lparr>pretrained_model := ''epoch_2nd_00004.pth'',
                  second_stage_load_pretrained := True, load_only_params := False\<rparr>"

definition resume_externals :: externals where
  "resume_externals = demo_externals\<lparr>pretrained_loaded := load_checkpoint_spec demo_checkpoint\<rparr>"




section \<open>Auxiliary notions\<close>

text \<open>The events of the training loop: every scalar it writes has a tag under
  \<open>train/\<close>.\<close>

definition train_event :: "event \<Rightarrow> bool" where
  "train_event e = (case e of AddScalar tag v n \<Rightarrow> take 6 tag = ''train/'' | _ \<Rightarrow> True)"

section \<open>Results and errors\<close>

lemma bind_err_Inr:
  "bind_err m f = Inr y \<longleftrightarrow> (\<exists>x. m = Inr x \<and> f x = Inr y)"
  by (cases m) (simp_all add: bind_err_def)

section \<open>Properties of the segment sampling\<close>

lemma excess_bits_small: "n < 9007199254740992 \<Longrightarrow> excess_bits n = 0"
  by (simp add: excess_bits.simps)

text \<open>An integer of at most 53 bits is a binary64 number.\<close>

lemma round53_small: "\<bar>n\<bar> < 9007199254740992 \<Longrightarrow> round53 n = n"
  by (simp add: round53_def excess_bits_small Let_def sgn_if)

lemma floor_half: "\<lfloor>real_of_int l / 2\<rfloor> = l div 2"
  using floor_divide_of_int_eq[of l 2, where ?'a=real] by simp

lemma float_half_small: "\<bar>l\<bar> < 9007199254740992 \<Longrightarrow> float_half l = of_int l / 2"
  by (simp add: float_half_def round53_small)

lemma float_minus_one_half:
  assumes "2 \<le> l" and "l < 9007199254740992"
  shows "float_minus_one (float_half l) = of_int l / 2 - 1"
proof -
  have h: "float_half l = of_int l / 2" using assms by (simp add: float_half_small)
  have "\<lfloor>2 * (real_of_int l / 2)\<rfloor> = l" by simp
  moreover have "round53 (l - 2) = l - 2" using assms by (simp add: round53_small)
  ultimately show ?thesis by (simp add: float_minus_one_def h)
qed

lemma py_int_half: "0 \<le> l \<Longrightarrow> l < 9007199254740992 \<Longrightarrow> py_int (float_half l) = l div 2"
  by (simp add: py_int_def floor_half float_half_small)

lemma py_int_half_minus_one:
  "2 \<le> l \<Longrightarrow> l < 9007199254740992 \<Longrightarrow> py_int (float_minus_one (float_half l)) = l div 2 - 1"
  by (simp add: py_int_def floor_half float_minus_one_half)

lemma randint_in_range:
  "low < high \<Longrightarrow> \<exists>r. randint low high e = Inr r \<and> low \<le> r \<and> r < high"
proof -
  assume lt: "low < high"
  then have pos: "0 < high - low" by simp
  have "0 \<le> int e mod (high - low)" and "int e mod (high - low) < high - low"
    using pos by simp_all
  then have "low \<le> low + int e mod (high - low)" and "low + int e mod (high - low) < high"
    by linarith+
  moreover have "randint low high e = Inr (low + int e mod (high - low))"
    using lt by (simp add: randint_def)
  ultimately show ?thesis by blast
qed

text \<open>When both crop lengths are below the half length of every utterance, no draw of the
  loop raises, and every offset lies in the range its draw was given.\<close>

lemma crop_offsets_defined:
  assumes "\<forall>l\<in>set ls. ml < py_int (float_half l) \<and> ml_st < py_int (float_half l)"
  shows "\<exists>offs. crop_offsets ml ml_st draw k ls = Inr offs
           \<and> list_all2 (\<lambda>l (a, b). 0 \<le> a \<and> a < py_int (float_half l) - ml
                                   \<and> 0 \<le> b \<and> b < py_int (float_half l) - ml_st) ls offs"
  using assms
proof (induction ls arbitrary: k)
  case Nil
  then show ?case by simp
next
  case (Cons l ls)
  let ?h = "py_int (float_half l)"
  from Cons.prems have lt: "0 < ?h - ml" "0 < ?h - ml_st" by simp_all
  obtain a where a: "randint 0 (?h - ml) (draw k) = Inr a" "0 \<le> a" "a < ?h - ml"
    using randint_in_range[OF lt(1)] by blast
  obtain b where b: "randint 0 (?h - ml_st) (draw (k + 1)) = Inr b" "0 \<le> b" "b < ?h - ml_st"
    using randint_in_range[OF lt(2)] by blast
  from Cons.prems have "\<forall>l\<in>set ls. ml < py_int (float_half l) \<and> ml_st < py_int (float_half l)"
    by simp
  from Cons.IH[OF this, of "k + 2"] obtain rest where
    rest: "crop_offsets ml ml_st draw (k + 2) ls = Inr rest"
      "list_all2 (\<lambda>l (a, b). 0 \<le> a \<and> a < py_int (float_half l) - ml
                                   \<and> 0 \<le> b \<and> b < py_int (float_half l) - ml_st) ls rest"
    by blast
  show ?case using a b rest by simp
qed

lemma min_list_le: "l \<in> set ls \<Longrightarrow> min_list ls \<le> (l::int)"
proof -
  assume l: "l \<in> set ls"
  then have "ls \<noteq> []" by auto
  then have "min_list ls = Min (set ls)" by (rule min_list_Min)
  then show ?thesis using l by simp
qed

text \<open>
  C10: for a batch that reaches the segment sampling (it has an utterance), whose shortest
  valid mel length is at least 2 and whose lengths are below \<open>2 ^ 53\<close> (where the binary64
  halves of lines 332, 333 and 341 are exact), lines 332--359 raise nothing, whatever the
  random generator draws and whatever \<open>max_len\<close> is. The style crop length is
  \<open>min_list lens div 2 - 1\<close>, the reconstruction crop length is that clamped by
  \<open>max_len div 2\<close>; both are strictly smaller than the half length \<open>l div 2\<close> of every
  utterance, so both ranges \<open>[0, l div 2 - length)\<close> are non-empty, and every offset drawn
  lies in its range.
\<close>

theorem crop_draws_well_defined:
  assumes "lens \<noteq> []" and "2 \<le> min_list lens"
    and "\<forall>l\<in>set lens. l < 9007199254740992"
  shows "\<exists>ml ml_st offs.
           sample_offsets mx lens draw = Inr (ml, ml_st, offs)
           \<and> ml_st = min_list lens div 2 - 1
           \<and> ml = min (min_list lens div 2 - 1) (mx div 2)
           \<and> (\<forall>l\<in>set lens. ml < l div 2 \<and> ml_st < l div 2)
           \<and> list_all2 (\<lambda>l (a, b). 0 \<le> a \<and> a < l div 2 - ml \<and> 0 \<le> b \<and> b < l div 2 - ml_st)
                lens offs"
proof -
  let ?m = "min_list lens"
  let ?ml_st = "?m div 2 - 1"
  let ?ml = "min ?ml_st (mx div 2)"
  have ge: "\<And>l. l \<in> set lens \<Longrightarrow> 2 \<le> l"
    using min_list_le assms(2) by force
  have half: "py_int (float_half l) = l div 2" if "l \<in> set lens" for l
    using ge[OF that] assms(3) that by (simp add: py_int_half)
  have m_in: "min_list lens \<in> set lens"
    using assms(1) min_list_Min[OF assms(1)] Min_in[of "set lens"] by simp
  have m53: "min_list lens < 9007199254740992" using assms(3) m_in by blast
  have lt: "\<And>l. l \<in> set lens \<Longrightarrow> ?ml_st < l div 2"
  proof -
    fix l assume "l \<in> set lens"
    then have "?m \<le> l" by (rule min_list_le)
    then have "?m div 2 \<le> l div 2" by (rule zdiv_mono1) simp
    then show "?ml_st < l div 2" by simp
  qed
  have lt': "?ml < l div 2" if "l \<in> set lens" for l
    using lt[OF that] by linarith
  have pre: "\<forall>l\<in>set lens. ?ml < py_int (float_half l) \<and> ?ml_st < py_int (float_half l)"
    using lt lt' half by simp
  from crop_offsets_defined[OF pre, of draw 0] obtain offs where
    offs: "crop_offsets ?ml ?ml_st draw 0 lens = Inr offs"
      "list_all2 (\<lambda>l (a, b). 0 \<le> a \<and> a < py_int (float_half l) - ?ml
                       \<and> 0 \<le> b \<and> b < py_int (float_half l) - ?ml_st) lens offs"
    by blast
  have l2: "list_all2 (\<lambda>l (a, b). 0 \<le> a \<and> a < l div 2 - ?ml \<and> 0 \<le> b \<and> b < l div 2 - ?ml_st) lens offs"
    using offs(2) half by (auto simp: list_all2_conv_all_nth)
  have "sample_offsets mx lens draw = Inr (?ml, ?ml_st, offs)"
    using assms(1,2) m53 offs(1)
    by (simp add: sample_offsets_def py_int_half_minus_one bind_err_def Let_def)
  then show ?thesis using lt lt' l2 by blast
qed

text \<open>A batch of two utterances of 160 and 200 frames with \<open>max_len = 400\<close>: both crop
  lengths are 79, the first utterance can only start at 0.\<close>

theorem crop_draws_well_defined_witness:
  "sample_offsets 400 [160, 200] (\<lambda>k. 7) = Inr (79, 79, [(0, 0), (7, 7)])"
proof -
  have h1: "[160, 200] \<noteq> ([] :: int list)" by simp
  have h2: "2 \<le> min_list [160, 200 :: int]" by simp
  have h3: "\<forall>l\<in>set [160, 200 :: int]. l < 9007199254740992" by simp
  have ex: "\<exists>ml ml_st offs. sample_offsets 400 [160, 200] (\<lambda>k. 7) = Inr (ml, ml_st, offs)"
    using crop_draws_well_defined[OF h1 h2 h3, where mx=400 and draw="\<lambda>k. 7"] by blast
  have a: "py_int (float_half 160) = 80" "py_int (float_half 200) = 100"
    "py_int (float_minus_one (float_half 160)) = 79"
    by (simp_all add: py_int_half py_int_half_minus_one)
  have "sample_offsets 400 [160, 200] (\<lambda>k. 7) = Inr (79, 79, [(0, 0), (7, 7)])"
    by (simp add: sample_offsets_def a randint_def bind_err_def)
  then show ?thesis using ex by simp
qed

text \<open>
  Beyond 53 bits the halves are rounded. For one utterance of \<open>2 ^ 54 + 8\<close> frames,
  \<^verbatim>\<open>l / 2\<close> is \<open>2 ^ 53 + 4\<close> and \<^verbatim>\<open>l / 2 - 1\<close>, halfway between two binary64
  numbers, rounds to \<open>2 ^ 53 + 4\<close> as well: the style crop is as long as the half
  utterance and its draw has an empty range.
\<close>

lemma excess_bits_huge:
  "excess_bits 18014398509481992 = 2" "excess_bits 18014398509481990 = 2"
  by (simp_all add: excess_bits.simps[of 18014398509481992] excess_bits.simps[of 18014398509481990]
        excess_bits.simps[of 9007199254740996] excess_bits.simps[of 9007199254740995]
        excess_bits_small)

lemma round53_huge:
  "round53 18014398509481992 = 18014398509481992" "round53 18014398509481990 = 18014398509481992"
  by (simp_all add: round53_def excess_bits_huge Let_def)

lemma huge_length_halves:
  "float_half 18014398509481992 = 9007199254740996"
  "float_minus_one 9007199254740996 = 9007199254740996"
proof -
  show "float_half 18014398509481992 = 9007199254740996"
    by (simp add: float_half_def round53_huge)
  have "\<lfloor>2 * (9007199254740996 :: real)\<rfloor> - 2 = 18014398509481990" by simp
  then show "float_minus_one 9007199254740996 = 9007199254740996"
    by (simp add: float_minus_one_def round53_huge)
qed

lemma huge_length_raises: "sample_offsets mx [18014398509481992] draw = Inl ValueError"
  by (simp add: sample_offsets_def huge_length_halves py_int_def randint_def bind_err_def Let_def
        min_def)

section \<open>Properties of the training step\<close>

lemma slm_stage_before_joint:
  "epoch < joint_epoch cur \<Longrightarrow> slm_stage nm cfg cur epoch b st = Inr (st, [], 0, 0)"
  by (simp add: slm_stage_def)

lemma log_step_events:
  assumes "log_step cfg i b ls ld dls lgl st = Inr (st', evs)"
  shows "iters st' = iters st" and "grads st' = grads st" and "param_groups st' = param_groups st"
    and "best_loss st' = best_loss st"
    and "\<And>e. e \<in> set evs \<Longrightarrow> \<exists>tag v s. e = AddScalar tag v s \<and> take 6 tag = ''train/''"
  using assms by (auto simp: log_step_def split: if_splits)

text \<open>The shape of a step that returns.\<close>

lemma train_step_shape:
  assumes "train_step nm cfg cur epoch i b st = Inr (st', evs)"
  shows "(evs = [] \<and> (st' = st \<or> st' = snd (denoiser_training cfg cur epoch b st)))
       \<or> (\<exists>seg st3 ev_slm dls lgl ev_log.
            sample_segments (max_len cfg) (mels_width b) (asr_width b) (p_width b) (utts b) (crop_draws b) = Inr seg
            \<and> \<not> gt_size seg < 80 \<and> \<not> aligner_raises b
            \<and> slm_stage nm cfg cur epoch b
                 ((snd (denoiser_training cfg cur epoch b st))
                    \<lparr>running_loss := running_loss (snd (denoiser_training cfg cur epoch b st)) + loss_mel b,
                     grads := g_grads b\<rparr>) = Inr (st3, ev_slm, dls, lgl)
            \<and> log_step cfg i b (fst (fst (denoiser_training cfg cur epoch b st)))
                 (snd (fst (denoiser_training cfg cur epoch b st))) dls lgl (st3\<lparr>iters := iters st3 + 1\<rparr>)
                 = Inr (st', ev_log)
            \<and> evs = [ZeroGrad, Backward ''d_loss'' (d_loss b), Step ''msd'', Step ''mpd'']
                   @ ([ZeroGrad, Backward ''g_loss'' (g_loss (weights cfg) b
                         (fst (fst (denoiser_training cfg cur epoch b st)))
                         (snd (fst (denoiser_training cfg cur epoch b st))))]
                      @ generator_steps cur epoch)
                   @ ev_slm @ ev_log)"
proof (cases "aligner_raises b")
  case True
  with assms show ?thesis by (simp add: train_step_def)
next
  case False
  obtain ls ld st1 where d: "denoiser_training cfg cur epoch b st = ((ls, ld), st1)"
    by (metis prod.exhaust)
  from assms False d obtain seg where
    seg: "sample_segments (max_len cfg) (mels_width b) (asr_width b) (p_width b) (utts b) (crop_draws b) = Inr seg"
    and rest: "(if gt_size seg < 80 then Inr (st1, [])
                  else
                    let ev_d = [ZeroGrad, Backward ''d_loss'' (d_loss b), Step ''msd'', Step ''mpd''];
                        ev_g = [ZeroGrad, Backward ''g_loss'' (g_loss (weights cfg) b ls ld)]
                               @ generator_steps cur epoch;
                        st2 = st1\<lparr>running_loss := running_loss st1 + loss_mel b, grads := g_grads b\<rparr>
                    in bind_err (slm_stage nm cfg cur epoch b st2)
                         (\<lambda>(st3, ev_slm, dls, lgl).
                            bind_err (log_step cfg i b ls ld dls lgl
                                        (st3\<lparr>iters := iters st3 + 1\<rparr>))
                              (\<lambda>(st4, ev_log). Inr (st4, ev_d @ ev_g @ ev_slm @ ev_log)))) = Inr (st', evs)"
    by (auto simp: train_step_def bind_err_Inr)
  show ?thesis
  proof (cases "gt_size seg < 80")
    case True
    with rest d show ?thesis by simp
  next
    case g: False
    from rest g obtain st3 ev_slm dls lgl st4 ev_log where
      "slm_stage nm cfg cur epoch b (st1\<lparr>running_loss := running_loss st1 + loss_mel b, grads := g_grads b\<rparr>)
         = Inr (st3, ev_slm, dls, lgl)"
      "log_step cfg i b ls ld dls lgl (st3\<lparr>iters := iters st3 + 1\<rparr>) = Inr (st4, ev_log)"
      "st' = st4"
      "evs = [ZeroGrad, Backward ''d_loss'' (d_loss b), Step ''msd'', Step ''mpd'']
             @ ([ZeroGrad, Backward ''g_loss'' (g_loss (weights cfg) b ls ld)] @ generator_steps cur epoch)
             @ ev_slm @ ev_log"
      by (auto simp: bind_err_Inr Let_def)
    with seg g False d show ?thesis by auto
  qed
qed

text \<open>
  The crops of the two demo batches.
\<close>

lemma ns: "sample_segments (max_len demo_config) (mels_width narrow_batch) (asr_width narrow_batch)
         (p_width narrow_batch) (utts narrow_batch) (crop_draws narrow_batch)
       = Inr \<lparr>mel_len = 39, mel_len_st = 39, offsets = [(0, 0)], wav_size = 23400,
              en_size = 39, p_en_size = 39, gt_size = 78, st_size = 78\<rparr>"
proof -
  have a: "py_int (float_half 80) = 40" "py_int (float_minus_one (float_half 80)) = 39"
    by (simp_all add: py_int_half py_int_half_minus_one)
  show ?thesis
    by (simp add: narrow_batch_def demo_batch_def demo_config_def sample_segments_def
          sample_offsets_def a randint_def bind_err_def stack_width_def py_slice_len_def)
qed

lemma ds: "sample_segments (max_len demo_config) (mels_width demo_batch) (asr_width demo_batch)
         (p_width demo_batch) (utts demo_batch) (crop_draws demo_batch)
       = Inr \<lparr>mel_len = 99, mel_len_st = 99, offsets = [(0, 0), (5, 5)], wav_size = 59400,
              en_size = 99, p_en_size = 99, gt_size = 198, st_size = 198\<rparr>"
proof -
  have a: "py_int (float_half 200) = 100" "py_int (float_half 240) = 120"
    "py_int (float_minus_one (float_half 200)) = 99"
    by (simp_all add: py_int_half py_int_half_minus_one)
  show ?thesis
    by (simp add: demo_batch_def demo_config_def sample_segments_def
          sample_offsets_def a randint_def bind_err_def stack_width_def py_slice_len_def)
qed

text \<open>
  C6: when the stacked ground-truth crop of a batch is narrower than 80 frames, the step
  returns at line 369 with no event at all: no \<^verbatim>\<open>optimizer.step\<close> of any unit, no
  \<^verbatim>\<open>zero_grad\<close>, no backward pass. The iteration counter, the gradients, the
  hyperparameters and the running loss are as before the batch, and the loop goes on with
  the next batch. The state is the one that the denoiser block (lines 286--326) left, which
  has recorded the sigma estimate when \<open>epoch \<ge> diff_epoch\<close> and the configuration
  estimates sigma.
\<close>

theorem narrow_crop_skips_step:
  assumes "sample_segments (max_len cfg) (mels_width b) (asr_width b) (p_width b) (utts b)
             (crop_draws b) = Inr seg"
    and "gt_size seg < 80"
  shows "\<exists>st'. train_step nm cfg cur epoch i b st = Inr (st', [])
           \<and> st' = (if aligner_raises b then st else snd (denoiser_training cfg cur epoch b st))
           \<and> iters st' = iters st \<and> grads st' = grads st \<and> param_groups st' = param_groups st
           \<and> running_loss st' = running_loss st
           \<and> train_loop nm cfg cur epoch i (b # bs) st = train_loop nm cfg cur epoch (i + 1) bs st'"
proof -
  obtain ls ld st1 where d: "denoiser_training cfg cur epoch b st = ((ls, ld), st1)"
    by (metis prod.exhaust)
  have same: "iters st1 = iters st \<and> grads st1 = grads st \<and> param_groups st1 = param_groups st
              \<and> running_loss st1 = running_loss st"
    using d by (auto simp: denoiser_training_def split: if_splits)
  have step: "train_step nm cfg cur epoch i b st = Inr (if aligner_raises b then st else st1, [])"
    using assms d by (simp add: train_step_def bind_err_def)
  show ?thesis using step same d by (auto split: sum.splits)
qed

text \<open>
  The batch of one utterance of 80 frames at epoch 12: its crop is 78 frames wide, the step is
  skipped, and only the sigma estimate has been recorded.
\<close>

theorem narrow_crop_skips_step_witness:
  "train_step exact_numerics demo_config demo_curriculum 12 0 narrow_batch demo_state
     = Inr (demo_state\<lparr>sigma_data := 1 / 4, running_std := [1 / 4]\<rparr>, [])"
proof -
  have h: "gt_size \<lparr>mel_len = 39, mel_len_st = 39, offsets = [(0, 0)], wav_size = 23400,
              en_size = 39, p_en_size = 39, gt_size = 78, st_size = 78\<rparr> < 80" by simp
  show ?thesis
    using narrow_crop_skips_step[OF ns h, where nm=exact_numerics and cur=demo_curriculum and epoch=12
        and i=0 and st=demo_state and bs="[]"]
    by (simp add: denoiser_training_def narrow_batch_def demo_batch_def demo_config_def
          demo_curriculum_def demo_state_def)
qed

lemma generator_steps_events:
  "e \<in> set (generator_steps cur epoch) \<Longrightarrow> \<exists>key. e = Step key \<and> key \<noteq> ''wd''"
  by (auto simp: generator_steps_def split: if_splits)

lemma slm_stage_events:
  assumes "slm_stage nm cfg cur epoch b st = Inr (st', evs, dls, lgl)"
  shows "iters st' = iters st" and "param_groups st' = param_groups st"
    and "best_loss st' = best_loss st"
    and "\<And>e. e \<in> set evs \<Longrightarrow>
           e = SlmAdv \<or> e = ZeroGrad \<or> (\<exists>v. e = Backward ''loss_gen_lm'' v)
           \<or> (\<exists>v. e = Backward ''d_loss_slm'' v)
           \<or> e \<in> Step ` {''bert_encoder'', ''bert'', ''predictor'', ''diffusion'', ''wd''}"
  using assms
  by (auto simp: slm_stage_def bind_err_Inr Let_def split: if_splits option.splits)

text \<open>
  C4: in an epoch below \<open>diff_epoch\<close> the style-reconstruction loss and the denoising
  loss are both 0 and the state is untouched by the denoiser block. The step does not depend
  on what the sampler, the diffusion unit or the sigma estimate would have given (no random
  draw of theirs is read). The generator loss that is back-propagated is the weighted sum of
  all eleven terms with 0 for the two losses, which equals the sum of the nine other terms;
  the scalars logged for the two losses are 0.
\<close>

theorem denoiser_losses_zero_before_diff_epoch:
  assumes "epoch < diff_epoch cur"
  shows "denoiser_training cfg cur epoch b st = ((0, 0), st)
       \<and> train_step nm cfg cur epoch i
            (b\<lparr>sampler_loss_sty := x, sampler_loss_diff := y, sigma_est := z\<rparr>) st
           = train_step nm cfg cur epoch i b st
       \<and> (\<forall>st' evs v. train_step nm cfg cur epoch i b st = Inr (st', evs)
              \<and> Backward ''g_loss'' v \<in> set evs
            \<longrightarrow> v = g_loss (weights cfg) b 0 0
              \<and> v = lambda_mel (weights cfg) * loss_mel b
                    + lambda_F0 (weights cfg) * loss_F0_rec b
                    + lambda_ce (weights cfg) * loss_ce b
                    + lambda_norm (weights cfg) * loss_norm_rec b
                    + lambda_dur (weights cfg) * loss_dur b
                    + lambda_gen (weights cfg) * loss_gen_all b
                    + lambda_slm (weights cfg) * loss_lm b
                    + lambda_mono (weights cfg) * loss_mono b
                    + lambda_s2s (weights cfg) * loss_s2s b)
       \<and> (\<forall>st' evs v s. train_step nm cfg cur epoch i b st = Inr (st', evs)
              \<and> (AddScalar ''train/sty_loss'' v s \<in> set evs \<or> AddScalar ''train/diff_loss'' v s \<in> set evs)
            \<longrightarrow> v = 0)"
proof -
  have d: "denoiser_training cfg cur epoch b st = ((0, 0), st)"
    using assms by (simp add: denoiser_training_def)
  have indep: "train_step nm cfg cur epoch i
            (b\<lparr>sampler_loss_sty := x, sampler_loss_diff := y, sigma_est := z\<rparr>) st
           = train_step nm cfg cur epoch i b st"
  proof -
    let ?b = "b\<lparr>sampler_loss_sty := x, sampler_loss_diff := y, sigma_est := z\<rparr>"
    have 1: "\<And>s. slm_stage nm cfg cur epoch ?b s = slm_stage nm cfg cur epoch b s"
      by (simp add: slm_stage_def)
    have 2: "\<And>a c dls lgl s. log_step cfg i ?b a c dls lgl s = log_step cfg i b a c dls lgl s"
      by (simp add: log_step_def)
    have 3: "\<And>a c. g_loss (weights cfg) ?b a c = g_loss (weights cfg) b a c"
      by (simp add: g_loss_def)
    show ?thesis
      using assms by (simp add: train_step_def denoiser_training_def 1 2 3 Let_def cong: if_cong)
  qed
  have gl: "v = g_loss (weights cfg) b 0 0"
    if "train_step nm cfg cur epoch i b st = Inr (st', evs)" "Backward ''g_loss'' v \<in> set evs"
    for st' evs v
  proof -
    from train_step_shape[OF that(1)] that(2) obtain st3 ev_slm dls lgl ev_log where
      slm: "slm_stage nm cfg cur epoch b
                 ((snd (denoiser_training cfg cur epoch b st))
                    \<lparr>running_loss := running_loss (snd (denoiser_training cfg cur epoch b st)) + loss_mel b,
                     grads := g_grads b\<rparr>) = Inr (st3, ev_slm, dls, lgl)"
      and lg: "log_step cfg i b (fst (fst (denoiser_training cfg cur epoch b st)))
                 (snd (fst (denoiser_training cfg cur epoch b st))) dls lgl (st3\<lparr>iters := iters st3 + 1\<rparr>)
                 = Inr (st', ev_log)"
      and evs: "evs = [ZeroGrad, Backward ''d_loss'' (d_loss b), Step ''msd'', Step ''mpd'']
                   @ ([ZeroGrad, Backward ''g_loss'' (g_loss (weights cfg) b
                         (fst (fst (denoiser_training cfg cur epoch b st)))
                         (snd (fst (denoiser_training cfg cur epoch b st))))]
                      @ generator_steps cur epoch)
                   @ ev_slm @ ev_log"
      by auto
    have "Backward ''g_loss'' v \<notin> set ev_slm"
      using slm_stage_events(4)[OF slm] by fastforce
    moreover have "Backward ''g_loss'' v \<notin> set ev_log"
      using log_step_events(5)[OF lg] by auto
    moreover have "Backward ''g_loss'' v \<notin> set (generator_steps cur epoch)"
      using generator_steps_events by blast
    ultimately show ?thesis using that(2) evs d by auto
  qed
  have lg0: "v = 0"
    if "train_step nm cfg cur epoch i b st = Inr (st', evs)"
      "AddScalar ''train/sty_loss'' v s \<in> set evs \<or> AddScalar ''train/diff_loss'' v s \<in> set evs"
    for st' evs v s
  proof -
    from train_step_shape[OF that(1)] that(2) obtain st3 ev_slm dls lgl ev_log where
      slm: "slm_stage nm cfg cur epoch b
                 ((snd (denoiser_training cfg cur epoch b st))
                    \<lparr>running_loss := running_loss (snd (denoiser_training cfg cur epoch b st)) + loss_mel b,
                     grads := g_grads b\<rparr>) = Inr (st3, ev_slm, dls, lgl)"
      and lg: "log_step cfg i b (fst (fst (denoiser_training cfg cur epoch b st)))
                 (snd (fst (denoiser_training cfg cur epoch b st))) dls lgl (st3\<lparr>iters := iters st3 + 1\<rparr>)
                 = Inr (st', ev_log)"
      and evs: "evs = [ZeroGrad, Backward ''d_loss'' (d_loss b), Step ''msd'', Step ''mpd'']
                   @ ([ZeroGrad, Backward ''g_loss'' (g_loss (weights cfg) b
                         (fst (fst (denoiser_training cfg cur epoch b st)))
                         (snd (fst (denoiser_training cfg cur epoch b st))))]
                      @ generator_steps cur epoch)
                   @ ev_slm @ ev_log"
      by auto
    have a: "\<And>tag. AddScalar tag v s \<notin> set ev_slm"
      using slm_stage_events(4)[OF slm] by fastforce
    have b: "\<And>tag. AddScalar tag v s \<notin> set (generator_steps cur epoch)"
      using generator_steps_events by blast
    from that(2) evs a b
    have "AddScalar ''train/sty_loss'' v s \<in> set ev_log \<or> AddScalar ''train/diff_loss'' v s \<in> set ev_log"
      by auto
    then show ?thesis using lg d by (auto simp: log_step_def split: if_splits)
  qed
  show ?thesis using d indep gl lg0 by (simp add: g_loss_def) blast
qed

text \<open>
  The demo batch at epoch 3 (\<open>diff_epoch = 10\<close>): the generator loss is
  \<open>5 + 1 + 20 + 1 + 1 + 1 + 1 + 0 + 0 + 1 + 1 = 32\<close>, and the diffusion unit is not stepped.
\<close>

theorem denoiser_losses_zero_before_diff_epoch_witness:
  "train_step exact_numerics demo_config demo_curriculum 3 0 demo_batch demo_state
     = Inr (demo_state\<lparr>iters := 8, running_loss := 4\<rparr>,
            [ZeroGrad, Backward ''d_loss'' 1, Step ''msd'', Step ''mpd'',
             ZeroGrad, Backward ''g_loss'' 32,
             Step ''bert_encoder'', Step ''bert'', Step ''predictor'', Step ''predictor_encoder'',
             Step ''style_encoder'', Step ''decoder'', Step ''text_encoder'', Step ''text_aligner''])"
proof -
  have h: "3 < diff_epoch demo_curriculum" by (simp add: demo_curriculum_def)
  have w: "weights demo_config = demo_weights" by (simp add: demo_config_def)
  have g: "g_loss demo_weights demo_batch 0 0 = 32"
    by (simp add: g_loss_def demo_weights_def demo_batch_def)
  have st: "demo_state\<lparr>running_loss := running_loss demo_state + loss_mel demo_batch,
                         grads := g_grads demo_batch\<rparr> = demo_state\<lparr>running_loss := 4\<rparr>"
    by (simp add: demo_state_def demo_batch_def)
  have lg: "log_step demo_config 0 demo_batch 0 0 0 0 (demo_state\<lparr>running_loss := 4, iters := iters demo_state + 1\<rparr>)
              = Inr (demo_state\<lparr>iters := 8, running_loss := 4\<rparr>, [])"
    by (simp add: log_step_def demo_config_def demo_state_def)
  have al: "\<not> aligner_raises demo_batch" "d_loss demo_batch = 1" by (simp_all add: demo_batch_def)
  have h1: "3 < joint_epoch demo_curriculum" by (simp add: demo_curriculum_def)
  have d: "denoiser_training demo_config demo_curriculum 3 demo_batch demo_state = ((0, 0), demo_state)"
    using denoiser_losses_zero_before_diff_epoch[OF h, where nm=exact_numerics and cfg=demo_config and b=demo_batch
        and st=demo_state and i=0 and x=0 and y=0 and z=0]
    by (rule conjunct1)
  have h2: "\<not> diff_epoch demo_curriculum \<le> 3" using h by simp
  show ?thesis
    by (simp add: train_step_def d ds h2 bind_err_def slm_stage_before_joint[OF h1] generator_steps_def
          h w g st lg al)
qed

text \<open>
  C5: in an epoch with \<open>diff_epoch \<le> epoch < joint_epoch\<close> the step does not depend on
  what \<^verbatim>\<open>slmadv\<close> would return, and a step that returns is either skipped (no event) or
  consists of exactly the discriminator update and the generator update (with the diffusion
  unit stepped), followed by nothing but scalars of the logging, where the two adversarial
  losses are logged as 0. There is no call of \<^verbatim>\<open>slmadv\<close>, no backward pass of an
  adversarial loss, no step of \<open>wd\<close>, and the gradients left on the parameters are the
  ones \<^verbatim>\<open>g_loss.backward()\<close> stored: no rescaling and no amplification has touched them.
\<close>

theorem slm_stage_not_invoked_before_joint_epoch:
  assumes "diff_epoch cur \<le> epoch" and "epoch < joint_epoch cur"
  shows "train_step nm cfg cur epoch i (b\<lparr>slm_out := r\<rparr>) st = train_step nm cfg cur epoch i b st
       \<and> (\<forall>st' evs. train_step nm cfg cur epoch i b st = Inr (st', evs) \<longrightarrow>
            (evs = [] \<and> grads st' = grads st \<and> iters st' = iters st)
            \<or> (\<exists>ev_log.
                  evs = [ZeroGrad, Backward ''d_loss'' (d_loss b), Step ''msd'', Step ''mpd'',
                         ZeroGrad,
                         Backward ''g_loss'' (g_loss (weights cfg) b (sampler_loss_sty b) (sampler_loss_diff b)),
                         Step ''bert_encoder'', Step ''bert'', Step ''predictor'',
                         Step ''predictor_encoder'', Step ''style_encoder'', Step ''decoder'',
                         Step ''text_encoder'', Step ''text_aligner'', Step ''diffusion'']
                        @ ev_log
                  \<and> (ev_log = [] \<or> (\<exists>n. AddScalar ''train/d_loss_slm'' 0 n \<in> set ev_log
                                        \<and> AddScalar ''train/gen_loss_slm'' 0 n \<in> set ev_log))
                  \<and> list_all (\<lambda>e. case e of AddScalar tag v n \<Rightarrow> True | _ \<Rightarrow> False) ev_log
                  \<and> grads st' = g_grads b \<and> iters st' = iters st + 1))"
proof -
  have indep: "train_step nm cfg cur epoch i (b\<lparr>slm_out := r\<rparr>) st = train_step nm cfg cur epoch i b st"
  proof -
    let ?b = "b\<lparr>slm_out := r\<rparr>"
    have 1: "\<And>s. slm_stage nm cfg cur epoch ?b s = slm_stage nm cfg cur epoch b s"
      using assms(2) by (simp add: slm_stage_def)
    have 2: "\<And>a c dls lgl s. log_step cfg i ?b a c dls lgl s = log_step cfg i b a c dls lgl s"
      by (simp add: log_step_def)
    have 3: "\<And>a c. g_loss (weights cfg) ?b a c = g_loss (weights cfg) b a c"
      by (simp add: g_loss_def)
    have 4: "denoiser_training cfg cur epoch ?b st = denoiser_training cfg cur epoch b st"
      by (simp add: denoiser_training_def)
    show ?thesis
      by (simp add: train_step_def 1 2 3 4 Let_def cong: if_cong)
  qed
  have main: "(evs = [] \<and> grads st' = grads st \<and> iters st' = iters st)
            \<or> (\<exists>ev_log.
                  evs = [ZeroGrad, Backward ''d_loss'' (d_loss b), Step ''msd'', Step ''mpd'',
                         ZeroGrad,
                         Backward ''g_loss'' (g_loss (weights cfg) b (sampler_loss_sty b) (sampler_loss_diff b)),
                         Step ''bert_encoder'', Step ''bert'', Step ''predictor'',
                         Step ''predictor_encoder'', Step ''style_encoder'', Step ''decoder'',
                         Step ''text_encoder'', Step ''text_aligner'', Step ''diffusion'']
                        @ ev_log
                  \<and> (ev_log = [] \<or> (\<exists>n. AddScalar ''train/d_loss_slm'' 0 n \<in> set ev_log
                                        \<and> AddScalar ''train/gen_loss_slm'' 0 n \<in> set ev_log))
                  \<and> list_all (\<lambda>e. case e of AddScalar tag v n \<Rightarrow> True | _ \<Rightarrow> False) ev_log
                  \<and> grads st' = g_grads b \<and> iters st' = iters st + 1)"
    if ts: "train_step nm cfg cur epoch i b st = Inr (st', evs)" for st' evs
  proof -
    let ?st1 = "snd (denoiser_training cfg cur epoch b st)"
    have fs: "fst (denoiser_training cfg cur epoch b st) = (sampler_loss_sty b, sampler_loss_diff b)"
      using assms(1) by (simp add: denoiser_training_def)
    have s1: "grads ?st1 = grads st" "iters ?st1 = iters st"
      by (simp_all add: denoiser_training_def)
    from train_step_shape[OF ts] show ?thesis
    proof
      assume "evs = [] \<and> (st' = st \<or> st' = ?st1)"
      then show ?thesis using s1 by auto
    next
      assume "\<exists>seg st3 ev_slm dls lgl ev_log.
            sample_segments (max_len cfg) (mels_width b) (asr_width b) (p_width b) (utts b) (crop_draws b) = Inr seg
            \<and> \<not> gt_size seg < 80 \<and> \<not> aligner_raises b
            \<and> slm_stage nm cfg cur epoch b
                 (?st1\<lparr>running_loss := running_loss ?st1 + loss_mel b, grads := g_grads b\<rparr>)
               = Inr (st3, ev_slm, dls, lgl)
            \<and> log_step cfg i b (fst (fst (denoiser_training cfg cur epoch b st)))
                 (snd (fst (denoiser_training cfg cur epoch b st))) dls lgl (st3\<lparr>iters := iters st3 + 1\<rparr>)
                 = Inr (st', ev_log)
            \<and> evs = [ZeroGrad, Backward ''d_loss'' (d_loss b), Step ''msd'', Step ''mpd'']
                   @ ([ZeroGrad, Backward ''g_loss'' (g_loss (weights cfg) b
                         (fst (fst (denoiser_training cfg cur epoch b st)))
                         (snd (fst (denoiser_training cfg cur epoch b st))))]
                      @ generator_steps cur epoch)
                   @ ev_slm @ ev_log"
      then obtain st3 ev_slm dls lgl ev_log where
        slm: "slm_stage nm cfg cur epoch b
                 (?st1\<lparr>running_loss := running_loss ?st1 + loss_mel b, grads := g_grads b\<rparr>)
               = Inr (st3, ev_slm, dls, lgl)"
        and lg: "log_step cfg i b (sampler_loss_sty b) (sampler_loss_diff b) dls lgl
                   (st3\<lparr>iters := iters st3 + 1\<rparr>) = Inr (st', ev_log)"
        and evs: "evs = [ZeroGrad, Backward ''d_loss'' (d_loss b), Step ''msd'', Step ''mpd'']
                   @ ([ZeroGrad, Backward ''g_loss'' (g_loss (weights cfg) b
                         (sampler_loss_sty b) (sampler_loss_diff b))]
                      @ generator_steps cur epoch)
                   @ ev_slm @ ev_log"
        using fs by auto
      from slm assms(2) have r: "st3 = ?st1\<lparr>running_loss := running_loss ?st1 + loss_mel b, grads := g_grads b\<rparr>"
        "ev_slm = []" "dls = 0" "lgl = 0"
        by (simp_all add: slm_stage_before_joint)
      have gs: "generator_steps cur epoch =
                 [Step ''bert_encoder'', Step ''bert'', Step ''predictor'',
                  Step ''predictor_encoder'', Step ''style_encoder'', Step ''decoder'',
                  Step ''text_encoder'', Step ''text_aligner'', Step ''diffusion'']"
        using assms(1) by (simp add: generator_steps_def)
      have g: "grads st' = g_grads b" "iters st' = iters st + 1"
        using log_step_events(1,2)[OF lg] r s1 by simp_all
      have l: "(ev_log = [] \<or> (\<exists>n. AddScalar ''train/d_loss_slm'' 0 n \<in> set ev_log
                                        \<and> AddScalar ''train/gen_loss_slm'' 0 n \<in> set ev_log))
               \<and> list_all (\<lambda>e. case e of AddScalar tag v n \<Rightarrow> True | _ \<Rightarrow> False) ev_log"
        using lg r by (auto simp: log_step_def split: if_splits)
      show ?thesis using evs r gs g l by auto
    qed
  qed
  show ?thesis using indep main by blast
qed

text \<open>
  The demo batch at epoch 12 (\<open>diff_epoch = 10\<close>, \<open>joint_epoch = 30\<close>): with or
  without a result of \<^verbatim>\<open>slmadv\<close> the step is the same.
\<close>

theorem slm_stage_not_invoked_before_joint_epoch_witness:
  "train_step exact_numerics demo_config demo_curriculum 12 0 (demo_batch\<lparr>slm_out := None\<rparr>) demo_state
     = Inr (demo_state\<lparr>iters := 8, running_loss := 4, sigma_data := 1 / 4, running_std := [1 / 4]\<rparr>,
            [ZeroGrad, Backward ''d_loss'' 1, Step ''msd'', Step ''mpd'',
             ZeroGrad, Backward ''g_loss'' 37,
             Step ''bert_encoder'', Step ''bert'', Step ''predictor'', Step ''predictor_encoder'',
             Step ''style_encoder'', Step ''decoder'', Step ''text_encoder'', Step ''text_aligner'',
             Step ''diffusion''])"
proof -
  have h1: "diff_epoch demo_curriculum \<le> 12" by (simp add: demo_curriculum_def)
  have h2: "12 < joint_epoch demo_curriculum" by (simp add: demo_curriculum_def)
  have w: "weights demo_config = demo_weights" by (simp add: demo_config_def)
  have g: "g_loss demo_weights demo_batch 2 3 = 37"
    by (simp add: g_loss_def demo_weights_def demo_batch_def)
  have d: "denoiser_training demo_config demo_curriculum 12 demo_batch demo_state
           = ((2, 3), demo_state\<lparr>sigma_data := 1 / 4, running_std := [1 / 4]\<rparr>)"
    by (simp add: denoiser_training_def demo_config_def demo_curriculum_def demo_batch_def demo_state_def)
  have lg: "log_step demo_config 0 demo_batch 2 3 0 0
              (demo_state\<lparr>sigma_data := 1 / 4, running_std := [1 / 4], running_loss := 4, iters := 8\<rparr>)
              = Inr (demo_state\<lparr>iters := 8, running_loss := 4, sigma_data := 1 / 4, running_std := [1 / 4]\<rparr>, [])"
    by (simp add: log_step_def demo_config_def demo_state_def)
  have al: "\<not> aligner_raises demo_batch" by (simp add: demo_batch_def)
  have st: "loss_mel demo_batch = 1" "d_loss demo_batch = 1"
    "g_grads demo_batch = demo_model" "running_loss demo_state = 3"
    "iters demo_state = 7" "grads demo_state = demo_model"
    by (simp_all add: demo_batch_def demo_state_def)
  have st2: "demo_state\<lparr>sigma_data := 1 / 4, running_std := [1 / 4], running_loss := 4, grads := demo_model\<rparr>
              = demo_state\<lparr>sigma_data := 1 / 4, running_std := [1 / 4], running_loss := 4\<rparr>"
    by (simp add: demo_state_def)
  have indep: "train_step exact_numerics demo_config demo_curriculum 12 0 (demo_batch\<lparr>slm_out := None\<rparr>) demo_state
               = train_step exact_numerics demo_config demo_curriculum 12 0 demo_batch demo_state"
    using slm_stage_not_invoked_before_joint_epoch[OF h1 h2, where nm=exact_numerics and cfg=demo_config and i=0
        and b=demo_batch and r=None and st=demo_state]
    by (rule conjunct1)
  have "train_step exact_numerics demo_config demo_curriculum 12 0 demo_batch demo_state
     = Inr (demo_state\<lparr>iters := 8, running_loss := 4, sigma_data := 1 / 4, running_std := [1 / 4]\<rparr>,
            [ZeroGrad, Backward ''d_loss'' 1, Step ''msd'', Step ''mpd'',
             ZeroGrad, Backward ''g_loss'' 37,
             Step ''bert_encoder'', Step ''bert'', Step ''predictor'', Step ''predictor_encoder'',
             Step ''style_encoder'', Step ''decoder'', Step ''text_encoder'', Step ''text_aligner'',
             Step ''diffusion''])"
    by (simp add: train_step_def ds bind_err_def slm_stage_before_joint[OF h2] generator_steps_def
          h1 w g d lg al st st2)
  then show ?thesis using indep by simp
qed

section \<open>Properties of the validation pass\<close>

lemma train_step_events:
  assumes "train_step nm cfg cur epoch i b st = Inr (st', evs)" and "e \<in> set evs"
  shows "train_event e"
proof -
  from train_step_shape[OF assms(1)] assms(2) obtain st3 ev_slm dls lgl ev_log ls ld s2 where
    slm: "slm_stage nm cfg cur epoch b s2 = Inr (st3, ev_slm, dls, lgl)"
    and lg: "log_step cfg i b ls ld dls lgl (st3\<lparr>iters := iters st3 + 1\<rparr>) = Inr (st', ev_log)"
    and evs: "evs = [ZeroGrad, Backward ''d_loss'' (d_loss b), Step ''msd'', Step ''mpd'']
                   @ ([ZeroGrad, Backward ''g_loss'' (g_loss (weights cfg) b ls ld)]
                      @ generator_steps cur epoch)
                   @ ev_slm @ ev_log"
    by auto
  from assms(2) evs consider "e \<in> {ZeroGrad, Backward ''d_loss'' (d_loss b), Step ''msd'', Step ''mpd'',
       Backward ''g_loss'' (g_loss (weights cfg) b ls ld)}" | "e \<in> set (generator_steps cur epoch)"
    | "e \<in> set ev_slm" | "e \<in> set ev_log" by auto
  then show ?thesis
  proof cases
    case 1 then show ?thesis by (auto simp: train_event_def)
  next
    case 2 then show ?thesis using generator_steps_events by (fastforce simp: train_event_def)
  next
    case 3 then show ?thesis using slm_stage_events(4)[OF slm] by (fastforce simp: train_event_def)
  next
    case 4 then show ?thesis using log_step_events(5)[OF lg] by (fastforce simp: train_event_def)
  qed
qed

lemma train_loop_events:
  "train_loop nm cfg cur epoch i bs st = Inr (st', evs) \<Longrightarrow> e \<in> set evs \<Longrightarrow> train_event e"
proof (induction bs arbitrary: i st st' evs)
  case Nil
  then show ?case by simp
next
  case (Cons b bs)
  from Cons.prems(1) obtain st1 ev1 ev2 where
    1: "train_step nm cfg cur epoch i b st = Inr (st1, ev1)"
    and 2: "train_loop nm cfg cur epoch (i + 1) bs st1 = Inr (st', ev2)"
    and 3: "evs = ev1 @ ev2"
    by (auto split: sum.splits)
  from Cons.prems(2) 3 have "e \<in> set ev1 \<or> e \<in> set ev2" by simp
  then show ?case using train_step_events[OF 1] Cons.IH[OF 2] by blast
qed

text \<open>
  C8: in every epoch that gets through its validation pass, with the accumulators
  \<open>(loss_test, loss_align, loss_f, iters_test)\<close> that the pass computed, at least one
  validation batch went through, and the writer receives under \<open>eval/dur_loss\<close> the mean
  mel loss \<^verbatim>\<open>loss_test / iters_test\<close> at step \<open>epoch + 1\<close>, the same number as under
  \<open>eval/mel_loss\<close>. It is the only scalar of the epoch under that tag, and what is written
  does not depend on the accumulated duration loss \<open>loss_align\<close>.
\<close>

theorem eval_dur_loss_logs_mel_loss:
  assumes "run_epoch nm cfg cur epoch d st = Inr (st', evs, ck)"
    and "validation_pass nm (val_batches d) (0, 0, 0, 0) = (loss_test, loss_align, loss_f, iters_test)"
  shows "iters_test \<noteq> 0
       \<and> AddScalar ''eval/mel_loss'' (loss_div nm loss_test iters_test) (epoch + 1) \<in> set evs
       \<and> AddScalar ''eval/dur_loss'' (loss_div nm loss_test iters_test) (epoch + 1) \<in> set evs
       \<and> (\<forall>v n. AddScalar ''eval/dur_loss'' v n \<in> set evs
              \<longrightarrow> v = loss_div nm loss_test iters_test \<and> n = epoch + 1)
       \<and> validation_report nm epoch (loss_test, x, loss_f, iters_test)
           = validation_report nm epoch (loss_test, loss_align, loss_f, iters_test)"
proof -
  from assms(1) obtain st1 ev_train where
    tl: "train_loop nm cfg cur epoch 0 (train_batches d) (st\<lparr>running_loss := 0\<rparr>) = Inr (st1, ev_train)"
    and rest: "bind_err (validation_report nm epoch (validation_pass nm (val_batches d) (0, 0, 0, 0)))
               (\<lambda>ev_val.
                  bind_err (save_checkpoint nm cfg epoch (validation_pass nm (val_batches d) (0, 0, 0, 0))
                              (if val_batches d = [] then st1 else st1\<lparr>grads := zero_grad (grads st1)\<rparr>))
                    (\<lambda>(st3, ck). Inr (st3, ev_train @ map (\<lambda>v. ZeroGrad) (val_batches d) @ ev_val, ck)))
            = Inr (st', evs, ck)"
    unfolding run_epoch_def bind_err_Inr[of "train_loop nm cfg cur epoch 0 (train_batches d) (st\<lparr>running_loss := 0\<rparr>)"]
    by (auto simp: Let_def)
  from rest obtain ev_val where
    vr: "validation_report nm epoch (loss_test, loss_align, loss_f, iters_test) = Inr ev_val"
    and evs: "evs = ev_train @ map (\<lambda>v. ZeroGrad) (val_batches d) @ ev_val"
    unfolding assms(2) bind_err_Inr by auto
  from vr have n: "iters_test \<noteq> 0"
    and ev_val: "ev_val = [AddScalar ''eval/mel_loss'' (loss_div nm loss_test iters_test) (epoch + 1),
                    AddScalar ''eval/dur_loss'' (loss_div nm loss_test iters_test) (epoch + 1),
                    AddScalar ''eval/F0_loss'' (loss_div nm loss_f iters_test) (epoch + 1)]"
    by (auto simp: validation_report_def split: if_splits)
  have only: "v = loss_div nm loss_test iters_test \<and> n = epoch + 1"
    if "AddScalar ''eval/dur_loss'' v n \<in> set evs" for v n
  proof -
    have "AddScalar ''eval/dur_loss'' v n \<notin> set ev_train"
      using train_loop_events[OF tl, of "AddScalar ''eval/dur_loss'' v n"]
      by (auto simp: train_event_def)
    then have "AddScalar ''eval/dur_loss'' v n \<in> set ev_val" using that evs by auto
    then show ?thesis using ev_val by simp
  qed
  have indep: "validation_report nm epoch (loss_test, x, loss_f, iters_test)
           = validation_report nm epoch (loss_test, loss_align, loss_f, iters_test)"
    by (simp add: validation_report_def)
  have mel: "AddScalar ''eval/mel_loss'' (loss_div nm loss_test iters_test) (epoch + 1) \<in> set evs"
    unfolding evs ev_val by simp
  have dur: "AddScalar ''eval/dur_loss'' (loss_div nm loss_test iters_test) (epoch + 1) \<in> set evs"
    unfolding evs ev_val by simp
  have all: "\<forall>v n. AddScalar ''eval/dur_loss'' v n \<in> set evs
              \<longrightarrow> v = loss_div nm loss_test iters_test \<and> n = epoch + 1"
    using only by blast
  from n mel dur all indep show ?thesis by (intro conjI)
qed

text \<open>
  The demo epoch, evaluated.
\<close>

lemma demo_validation:
  "validation_pass exact_numerics (val_batches demo_epoch) (0, 0, 0, 0) = (6, 40, 4, 2)"
  by (simp add: demo_epoch_def exact_numerics_def)

lemma demo_run_epoch:
  "run_epoch exact_numerics demo_config demo_curriculum 3 demo_epoch demo_state
     = Inr (demo_state\<lparr>running_loss := 0, grads := zero_grad demo_model\<rparr>,
            [ZeroGrad, ZeroGrad, ZeroGrad,
             AddScalar ''eval/mel_loss'' 3 4, AddScalar ''eval/dur_loss'' 3 4,
             AddScalar ''eval/F0_loss'' 2 4], None)"
proof -
  have h: "gt_size \<lparr>mel_len = 39, mel_len_st = 39, offsets = [(0, 0)], wav_size = 23400,
              en_size = 39, p_en_size = 39, gt_size = 78, st_size = 78\<rparr> < 80" by simp
  have al: "\<not> aligner_raises narrow_batch" by (simp add: narrow_batch_def demo_batch_def)
  have d: "denoiser_training demo_config demo_curriculum 3 narrow_batch (demo_state\<lparr>running_loss := 0\<rparr>)
            = ((0, 0), demo_state\<lparr>running_loss := 0\<rparr>)"
    by (simp add: denoiser_training_def demo_curriculum_def)
  have ts: "train_step exact_numerics demo_config demo_curriculum 3 0 narrow_batch (demo_state\<lparr>running_loss := 0\<rparr>)
            = Inr (demo_state\<lparr>running_loss := 0\<rparr>, [])"
    by (simp add: train_step_def al d ns bind_err_def)
  have tl: "train_loop exact_numerics demo_config demo_curriculum 3 0 (train_batches demo_epoch) (demo_state\<lparr>running_loss := 0\<rparr>)
            = Inr (demo_state\<lparr>running_loss := 0\<rparr>, [])"
    by (simp add: demo_epoch_def ts)
  have vb: "val_batches demo_epoch \<noteq> []" "map (\<lambda>v. ZeroGrad) (val_batches demo_epoch) = [ZeroGrad, ZeroGrad, ZeroGrad]"
    by (simp_all add: demo_epoch_def)
  have sf: "save_freq demo_config = 5" by (simp add: demo_config_def)
  have g: "grads demo_state = demo_model" by (simp add: demo_state_def)
  have ld: "loss_div exact_numerics 6 2 = 3" "loss_div exact_numerics 4 2 = 2"
    by (simp_all add: exact_numerics_def)
  show ?thesis
    by (simp add: run_epoch_def tl demo_validation vb bind_err_def validation_report_def
          save_checkpoint_def sf g ld)
qed

text \<open>
  The demo epoch in exact arithmetic: the mean mel loss is \<open>6 / 2 = 3\<close>, the mean
  duration loss would be \<open>40 / 2 = 20\<close>, and 3 is what is written under
  \<open>eval/dur_loss\<close>.
\<close>

theorem eval_dur_loss_logs_mel_loss_witness:
  "run_epoch exact_numerics demo_config demo_curriculum 3 demo_epoch demo_state
     = Inr (demo_state\<lparr>running_loss := 0, grads := zero_grad demo_model\<rparr>,
            [ZeroGrad, ZeroGrad, ZeroGrad,
             AddScalar ''eval/mel_loss'' 3 4, AddScalar ''eval/dur_loss'' 3 4,
             AddScalar ''eval/F0_loss'' 2 4], None)
   \<and> validation_pass exact_numerics (val_batches demo_epoch) (0, 0, 0, 0) = (6, 40, 4, 2)
   \<and> loss_div exact_numerics 6 2 = 3 \<and> loss_div exact_numerics 40 2 = 20"
proof -
  have "AddScalar ''eval/dur_loss'' (loss_div exact_numerics 6 2) (3 + 1)
     \<in> set [ZeroGrad, ZeroGrad, ZeroGrad,
             AddScalar ''eval/mel_loss'' 3 4, AddScalar ''eval/dur_loss'' 3 4,
             AddScalar ''eval/F0_loss'' 2 4]"
    by (rule eval_dur_loss_logs_mel_loss[OF demo_run_epoch demo_validation, where x=0,
          THEN conjunct2, THEN conjunct2, THEN conjunct1])
  then have "loss_div exact_numerics 6 2 = 3" by simp
  moreover have "loss_div exact_numerics 40 2 = 20" by (simp add: exact_numerics_def)
  ultimately show ?thesis using demo_run_epoch demo_validation by simp
qed

section \<open>Properties of the gradient rescaling and amplification (lines 498--529)\<close>

lemma scale_grad_fields:
  "pname (scale_grad nm c p) = pname p" "requires_grad (scale_grad nm c p) = requires_grad p"
  "in_submodule s (scale_grad nm c p) = in_submodule s p"
  "counted (scale_grad nm c p) = counted p"
  by (simp_all add: scale_grad_def in_submodule_def counted_def split: option.splits)

lemma foldl_add_sum:
  "foldl (\<lambda>acc p. acc + f p) a xs = a + sum_list (map f xs)" for a :: real
  by (induction xs arbitrary: a) (simp_all add: add.assoc)

lemma total_norm_exact:
  "total_norm exact_numerics ps = sqrt (\<Sum>p\<leftarrow>filter counted ps. (param_norm exact_numerics p)\<^sup>2)"
  by (simp add: total_norm_def exact_numerics_def foldl_add_sum)

lemma sum_squares_scaled:
  "(\<Sum>x\<leftarrow>g. (x * c)\<^sup>2) = c\<^sup>2 * (\<Sum>x\<leftarrow>g. x\<^sup>2)" for c :: real
  by (induction g) (simp_all add: power_mult_distrib algebra_simps)

lemma l2_norm_scaled: "l2_norm (map (\<lambda>x. x * c) g) = \<bar>c\<bar> * l2_norm g"
  by (simp add: l2_norm_def comp_def sum_squares_scaled real_sqrt_mult)

lemma param_norm_scaled:
  "param_norm exact_numerics (scale_grad exact_numerics c p) = \<bar>c\<bar> * param_norm exact_numerics p"
  by (simp add: param_norm_def scale_grad_def exact_numerics_def l2_norm_scaled split: option.splits)

lemma sum_squares_params_scaled:
  "(\<Sum>p\<leftarrow>qs. (\<bar>c\<bar> * f p)\<^sup>2) = c\<^sup>2 * (\<Sum>p\<leftarrow>qs. (f p)\<^sup>2)" for c :: real
  by (induction qs) (simp_all add: power_mult_distrib algebra_simps)

lemma total_norm_scaled:
  "total_norm exact_numerics (map (scale_grad exact_numerics c) qs) = \<bar>c\<bar> * total_norm exact_numerics qs"
proof -
  have f: "filter counted (map (scale_grad exact_numerics c) qs)
           = map (scale_grad exact_numerics c) (filter counted qs)"
    by (simp add: filter_map comp_def scale_grad_fields)
  show ?thesis
    by (simp add: total_norm_exact f comp_def param_norm_scaled sum_squares_params_scaled
          real_sqrt_mult)
qed

lemma total_norm_exact_nonneg: "0 \<le> total_norm exact_numerics ps"
  by (auto simp: total_norm_exact intro!: sum_list_nonneg)

lemma demo_norms:
  "total_norm exact_numerics demo_predictor = 4"
  "total_norm exact_numerics demo_decoder = 8"
  "total_norm exact_numerics demo_decoder_rescaled = 2"
proof -
  have s: "sqrt 4 = 2" "sqrt 16 = 4" "sqrt 64 = 8"
    using real_sqrt_abs[of 2] real_sqrt_abs[of 4] real_sqrt_abs[of 8] by simp_all
  have n: "l2_norm [2] = 2" "l2_norm [8] = 8" by (simp_all add: l2_norm_def)
  have tn: "tensor_norm exact_numerics = l2_norm" by (simp add: exact_numerics_def)
  show "total_norm exact_numerics demo_predictor = 4"
    by (simp add: total_norm_exact demo_predictor_def counted_def param_norm_def tn n s)
  show "total_norm exact_numerics demo_decoder = 8"
    by (simp add: total_norm_exact demo_decoder_def counted_def param_norm_def tn n s)
  show "total_norm exact_numerics demo_decoder_rescaled = 2"
    by (simp add: total_norm_exact demo_decoder_rescaled_def counted_def param_norm_def tn n s)
qed

lemma demo_rescale:
  "gradient_scaling exact_numerics 2 demo_model = Inr demo_model_rescaled"
proof -
  have p: "map_of demo_model ''predictor'' = Some demo_predictor" by (simp add: demo_model_def)
  have r: "float_recip exact_numerics 4 = 1 / 4" by (simp add: exact_numerics_def)
  have m: "tensor_mul exact_numerics g c = map (\<lambda>x. x * c) g" for g c
    by (simp add: exact_numerics_def)
  have "map (\<lambda>(key, qs). (key, map (scale_grad exact_numerics (1 / 4)) qs)) demo_model
        = demo_model_rescaled"
    by (simp add: demo_model_def demo_model_rescaled_def demo_predictor_def demo_decoder_def
          demo_decoder_rescaled_def scale_grad_def m)
  then show ?thesis
    by (simp add: gradient_scaling_def p demo_norms r)
qed

text \<open>
  On the demo model the predictor's gradient norm is 4, twice the threshold 2. The script
  multiplies every gradient by \<open>1 / 4\<close>, the reciprocal of the predictor's norm, and not by
  \<open>threshold / norm = 1 / 2\<close>: the decoder's gradient norm goes from 8 to 2, which is not
  half of 8.
\<close>

theorem rescale_factor_counterexample:
  "total_norm exact_numerics demo_predictor = 2 * slmadv_thresh demo_config
   \<and> gradient_scaling exact_numerics (slmadv_thresh demo_config) demo_model = Inr demo_model_rescaled
   \<and> map_of demo_model ''decoder'' = Some demo_decoder
   \<and> map_of demo_model_rescaled ''decoder'' = Some demo_decoder_rescaled
   \<and> total_norm exact_numerics demo_decoder = 8
   \<and> total_norm exact_numerics demo_decoder_rescaled = 2
   \<and> total_norm exact_numerics demo_decoder_rescaled \<noteq> total_norm exact_numerics demo_decoder / 2
   \<and> float_recip exact_numerics (total_norm exact_numerics demo_predictor)
         \<noteq> slmadv_thresh demo_config / total_norm exact_numerics demo_predictor"
proof -
  have t: "slmadv_thresh demo_config = 2" by (simp add: demo_config_def)
  have d: "map_of demo_model ''decoder'' = Some demo_decoder"
    "map_of demo_model_rescaled ''decoder'' = Some demo_decoder_rescaled"
    by (simp_all add: demo_model_def demo_model_rescaled_def)
  have r: "float_recip exact_numerics 4 = 1 / 4" by (simp add: exact_numerics_def)
  show ?thesis by (simp add: t d demo_norms demo_rescale r)
qed

text \<open>
  C1, as the script has it: when the predictor's gradient norm exceeds the threshold (and
  is not zero), every gradient that is not \<open>None\<close> of every unit is multiplied by the
  number that \<^verbatim>\<open>1 / total_norm["predictor"]\<close> computes; the threshold only decides
  whether this happens. In exact arithmetic the factor is the reciprocal of the predictor's
  norm, so the gradient norm of every unit (as lines 498--509 compute it) is divided by the
  predictor's norm: when that norm is twice the threshold, by twice the threshold, which is
  a halving only for a threshold of 1.
\<close>

theorem rescale_divides_by_predictor_norm:
  assumes "map_of m ''predictor'' = Some ps"
    and "thresh < total_norm nm ps"
    and "total_norm nm ps \<noteq> 0"
  shows "gradient_scaling nm thresh m
           = Inr (map (\<lambda>(key, qs).
                         (key, map (scale_grad nm (float_recip nm (total_norm nm ps))) qs)) m)
       \<and> (nm = exact_numerics \<longrightarrow>
            float_recip nm (total_norm nm ps) = 1 / total_norm nm ps
            \<and> (\<forall>qs. total_norm nm (map (scale_grad nm (float_recip nm (total_norm nm ps))) qs)
                        = total_norm nm qs / total_norm nm ps)
            \<and> (total_norm nm ps = 2 * thresh \<longrightarrow>
                 (\<forall>qs. total_norm nm (map (scale_grad nm (float_recip nm (total_norm nm ps))) qs)
                         = total_norm nm qs / (2 * thresh))))"
proof -
  have 1: "gradient_scaling nm thresh m
           = Inr (map (\<lambda>(key, qs).
                         (key, map (scale_grad nm (float_recip nm (total_norm nm ps))) qs)) m)"
    using assms by (simp add: gradient_scaling_def)
  have 2: "total_norm exact_numerics
             (map (scale_grad exact_numerics (float_recip exact_numerics (total_norm exact_numerics ps))) qs)
           = total_norm exact_numerics qs / total_norm exact_numerics ps" for qs
  proof -
    have r: "float_recip exact_numerics (total_norm exact_numerics ps) = 1 / total_norm exact_numerics ps"
      by (simp add: exact_numerics_def)
    have "0 \<le> 1 / total_norm exact_numerics ps"
      using total_norm_exact_nonneg[of ps] by simp
    then show ?thesis by (simp add: r total_norm_scaled)
  qed
  have 3: "float_recip exact_numerics (total_norm exact_numerics ps) = 1 / total_norm exact_numerics ps"
    by (simp add: exact_numerics_def)
  show ?thesis
  proof (intro conjI impI allI)
    show "gradient_scaling nm thresh m
           = Inr (map (\<lambda>(key, qs).
                         (key, map (scale_grad nm (float_recip nm (total_norm nm ps))) qs)) m)"
      by (rule 1)
  next
    assume "nm = exact_numerics"
    then show "float_recip nm (total_norm nm ps) = 1 / total_norm nm ps" using 3 by simp
  next
    fix qs assume "nm = exact_numerics"
    then show "total_norm nm (map (scale_grad nm (float_recip nm (total_norm nm ps))) qs)
                        = total_norm nm qs / total_norm nm ps" using 2 by simp
  next
    fix qs assume e: "nm = exact_numerics" and t: "total_norm nm ps = 2 * thresh"
    have "total_norm nm (map (scale_grad nm (float_recip nm (total_norm nm ps))) qs)
                        = total_norm nm qs / total_norm nm ps" using 2 e by simp
    then show "total_norm nm (map (scale_grad nm (float_recip nm (total_norm nm ps))) qs)
                         = total_norm nm qs / (2 * thresh)" using t by simp
  qed
qed

theorem rescale_divides_by_predictor_norm_witness:
  "gradient_scaling exact_numerics 2 demo_model = Inr demo_model_rescaled
   \<and> total_norm exact_numerics demo_predictor = 2 * 2
   \<and> total_norm exact_numerics
         (map (scale_grad exact_numerics
                 (float_recip exact_numerics (total_norm exact_numerics demo_predictor))) demo_decoder)
       = 8 / 4"
proof -
  have p: "map_of demo_model ''predictor'' = Some demo_predictor" by (simp add: demo_model_def)
  have h1: "2 < total_norm exact_numerics demo_predictor" by (simp add: demo_norms)
  have h2: "total_norm exact_numerics demo_predictor \<noteq> 0" by (simp add: demo_norms)
  note t = rescale_divides_by_predictor_norm[OF p h1 h2]
  have "gradient_scaling exact_numerics 2 demo_model
          = Inr (map (\<lambda>(key, qs).
                        (key, map (scale_grad exact_numerics
                                     (float_recip exact_numerics (total_norm exact_numerics demo_predictor))) qs))
                   demo_model)"
    by (rule t[THEN conjunct1])
  then have a: "gradient_scaling exact_numerics 2 demo_model = Inr demo_model_rescaled"
    using demo_rescale by simp
  have "\<forall>qs. total_norm exact_numerics
               (map (scale_grad exact_numerics
                       (float_recip exact_numerics (total_norm exact_numerics demo_predictor))) qs)
             = total_norm exact_numerics qs / total_norm exact_numerics demo_predictor"
    by (rule t[THEN conjunct2, THEN mp, OF refl, THEN conjunct2, THEN conjunct1])
  then have b: "total_norm exact_numerics
               (map (scale_grad exact_numerics
                       (float_recip exact_numerics (total_norm exact_numerics demo_predictor))) demo_decoder)
             = total_norm exact_numerics demo_decoder / total_norm exact_numerics demo_predictor"
    by (rule spec)
  from b have c: "total_norm exact_numerics
               (map (scale_grad exact_numerics
                       (float_recip exact_numerics (total_norm exact_numerics demo_predictor))) demo_decoder)
             = 8 / 4"
    by (simp only: demo_norms)
  have d: "total_norm exact_numerics demo_predictor = 2 * 2" by (simp add: demo_norms)
  from a d c show ?thesis by (intro conjI)
qed

lemma scale_twice_exact:
  "grad (scale_grad exact_numerics s (scale_grad exact_numerics c p))
     = map_option (map (\<lambda>x. x * (c * s))) (grad p)"
  by (simp add: scale_grad_def exact_numerics_def split: option.splits)

text \<open>A parameter lies in one submodule of its unit.\<close>

lemma in_submodule_unique: "in_submodule s p \<Longrightarrow> in_submodule t p \<Longrightarrow> s = t"
  by (auto simp: in_submodule_def split: list.splits)

lemma duration_proj_not_lstm: "in_submodule ''duration_proj'' p \<Longrightarrow> \<not> in_submodule ''lstm'' p"
  using in_submodule_unique[of "''duration_proj''" p "''lstm''"] by auto

lemma amplify_shape:
  assumes "amplify nm scale m = Inr m'"
  shows "m' = map (\<lambda>(key, qs).
                 (key, map (\<lambda>p. if key = ''diffusion''
                                      \<or> key = ''predictor''
                                        \<and> (in_submodule ''duration_proj'' p \<or> in_submodule ''lstm'' p)
                                   then scale_grad nm scale p else p) qs)) m"
proof -
  from assms have m': "m' = scale_unit nm ''diffusion'' scale
                         (scale_submodule nm ''predictor'' ''lstm'' scale
                            (scale_submodule nm ''predictor'' ''duration_proj'' scale m))"
    by (simp add: amplify_def Let_def split: if_splits)
  show ?thesis
    unfolding m' scale_unit_def scale_submodule_def map_map
    by (rule map_cong) (auto simp: scale_grad_fields dest: duration_proj_not_lstm)
qed

text \<open>
  C3: when the gradient surgery of lines 511--529 goes through, the model has a predictor;
  every parameter first gets the global rescaling (the factor
  \<^verbatim>\<open>1 / total_norm["predictor"]\<close> when the predictor's norm exceeds the threshold, nothing
  otherwise), and then exactly the predictor's parameters under \<open>duration_proj\<close> and
  \<open>lstm\<close> and all parameters of the diffusion unit are multiplied by \<open>scale\<close>; every
  other parameter keeps the rescaled gradient. In exact arithmetic a rescaling by \<open>c\<close>
  followed by the amplification multiplies every entry of a gradient by \<open>c * scale\<close>.
\<close>

theorem amplification_after_rescale:
  assumes "gradient_surgery nm thresh scale m = Inr m'"
  shows "\<exists>ps. map_of m ''predictor'' = Some ps
       \<and> m' = map (\<lambda>(key, qs).
                     (key, map (\<lambda>p. if key = ''diffusion''
                                         \<or> key = ''predictor''
                                           \<and> (in_submodule ''duration_proj'' p \<or> in_submodule ''lstm'' p)
                                       then scale_grad nm scale
                                              (if thresh < total_norm nm ps
                                               then scale_grad nm (float_recip nm (total_norm nm ps)) p
                                               else p)
                                       else (if thresh < total_norm nm ps
                                             then scale_grad nm (float_recip nm (total_norm nm ps)) p
                                             else p)) qs)) m
       \<and> (\<forall>p c. grad (scale_grad exact_numerics scale (scale_grad exact_numerics c p))
                   = map_option (map (\<lambda>x. x * (c * scale))) (grad p))"
proof -
  from assms obtain m1 where gs: "gradient_scaling nm thresh m = Inr m1"
    and am: "amplify nm scale m1 = Inr m'"
    by (auto simp: gradient_surgery_def bind_err_Inr)
  from gs obtain ps where ps: "map_of m ''predictor'' = Some ps"
    and m1: "m1 = (if thresh < total_norm nm ps
                   then map (\<lambda>(key, qs).
                          (key, map (scale_grad nm (float_recip nm (total_norm nm ps))) qs)) m
                   else m)"
    by (auto simp: gradient_scaling_def split: option.splits if_splits)
  have "m' = map (\<lambda>(key, qs).
                     (key, map (\<lambda>p. if key = ''diffusion''
                                         \<or> key = ''predictor''
                                           \<and> (in_submodule ''duration_proj'' p \<or> in_submodule ''lstm'' p)
                                       then scale_grad nm scale
                                              (if thresh < total_norm nm ps
                                               then scale_grad nm (float_recip nm (total_norm nm ps)) p
                                               else p)
                                       else (if thresh < total_norm nm ps
                                             then scale_grad nm (float_recip nm (total_norm nm ps)) p
                                             else p)) qs)) m"
    unfolding amplify_shape[OF am] m1
    by (auto simp: scale_grad_fields)
  then show ?thesis using ps scale_twice_exact by blast
qed

lemma demo_amplify:
  "amplify exact_numerics (1 / 100) demo_model_rescaled = Inr demo_model_amplified"
proof -
  have m: "tensor_mul exact_numerics g c = map (\<lambda>x. x * c) g" for g c
    by (simp add: exact_numerics_def)
  show ?thesis
    by (simp add: amplify_def scale_submodule_def scale_unit_def in_submodule_def
          demo_model_rescaled_def demo_model_amplified_def demo_decoder_rescaled_def
          scale_grad_def m)
qed

theorem amplification_after_rescale_witness:
  "gradient_surgery exact_numerics 2 (1 / 100) demo_model = Inr demo_model_amplified
   \<and> (\<exists>ps. map_of demo_model ''predictor'' = Some ps
         \<and> demo_model_amplified
             = map (\<lambda>(key, qs).
                     (key, map (\<lambda>p. if key = ''diffusion''
                                         \<or> key = ''predictor''
                                           \<and> (in_submodule ''duration_proj'' p \<or> in_submodule ''lstm'' p)
                                       then scale_grad exact_numerics (1 / 100)
                                              (if 2 < total_norm exact_numerics ps
                                               then scale_grad exact_numerics
                                                      (float_recip exact_numerics (total_norm exact_numerics ps)) p
                                               else p)
                                       else (if 2 < total_norm exact_numerics ps
                                             then scale_grad exact_numerics
                                                    (float_recip exact_numerics (total_norm exact_numerics ps)) p
                                             else p)) qs)) demo_model)"
proof -
  have e: "gradient_surgery exact_numerics 2 (1 / 100) demo_model = Inr demo_model_amplified"
    by (simp add: gradient_surgery_def demo_rescale bind_err_def demo_amplify)
  from amplification_after_rescale[OF e] have
    "\<exists>ps. map_of demo_model ''predictor'' = Some ps
         \<and> demo_model_amplified
             = map (\<lambda>(key, qs).
                     (key, map (\<lambda>p. if key = ''diffusion''
                                         \<or> key = ''predictor''
                                           \<and> (in_submodule ''duration_proj'' p \<or> in_submodule ''lstm'' p)
                                       then scale_grad exact_numerics (1 / 100)
                                              (if 2 < total_norm exact_numerics ps
                                               then scale_grad exact_numerics
                                                      (float_recip exact_numerics (total_norm exact_numerics ps)) p
                                               else p)
                                       else (if 2 < total_norm exact_numerics ps
                                             then scale_grad exact_numerics
                                                    (float_recip exact_numerics (total_norm exact_numerics ps)) p
                                             else p)) qs)) demo_model"
    by blast
  with e show ?thesis by (rule conjI)
qed

section \<open>Properties of the start-up and of the whole run\<close>






lemma save_checkpoint_param_groups:
  "save_checkpoint nm cfg epoch acc st = Inr (st1, ck) \<Longrightarrow>
     param_groups st1 = param_groups st \<and> iters st1 = iters st
     \<and> (\<forall>c. ck = Some c \<longrightarrow> ck_optimizer c = param_groups st \<and> ck_iters c = iters st \<and> ck_epoch c = epoch)"
  by (auto simp: save_checkpoint_def Let_def split: prod.splits if_splits option.splits)





lemma startup_Inr:
  assumes "startup cfg ext = Inr (cur, st)"
  shows "\<exists>cur0 its spd opt.
           load_first_stage cfg ext = Inr (cur0, its, grads st)
         \<and> scheduler_params_dict cfg ext (epochs cur0) (grads st) = Inr spd
         \<and> adjust_optimizers (bert_lr cfg) (ft_lr cfg) (build_optimizer ext spd (lr cfg)) = Inr opt
         \<and> iters st = 0
         \<and> param_groups st = (if pretrained_model cfg \<noteq> [] \<and> second_stage_load_pretrained cfg
                               then fst (pretrained_loaded ext opt (load_only_params cfg)) else opt)
         \<and> cur = (if pretrained_model cfg \<noteq> [] \<and> second_stage_load_pretrained cfg
                   then cur0\<lparr>start_epoch := fst (snd (pretrained_loaded ext opt (load_only_params cfg)))\<rparr>
                   else cur0)"
proof -
  from assms obtain x where a0: "load_first_stage cfg ext = Inr x"
    by (cases "load_first_stage cfg ext") (simp_all add: startup_def bind_err_def)
  obtain cur0 its m where x: "x = (cur0, its, m)" by (cases x) auto
  note a = a0[unfolded x]
  have hu: "has_units [''mpd'', ''msd'', ''wd'', ''diffusion''] m"
    using assms by (cases "has_units [''mpd'', ''msd'', ''wd'', ''diffusion''] m")
      (simp_all only: startup_def a bind_err_def sum.case prod.case if_True if_False not_True_eq_False not_False_eq_True sum.distinct)
  from assms obtain spd where b: "scheduler_params_dict cfg ext (epochs cur0) m = Inr spd"
    by (cases "scheduler_params_dict cfg ext (epochs cur0) m")
      (simp_all only: startup_def a bind_err_def sum.case prod.case hu if_True if_False not_True_eq_False not_False_eq_True sum.distinct)
  from assms obtain opt where c: "adjust_optimizers (bert_lr cfg) (ft_lr cfg) (build_optimizer ext spd (lr cfg)) = Inr opt"
    by (cases "adjust_optimizers (bert_lr cfg) (ft_lr cfg) (build_optimizer ext spd (lr cfg))")
      (simp_all only: startup_def a b bind_err_def sum.case prod.case hu if_True if_False not_True_eq_False not_False_eq_True sum.distinct)
  obtain opt1 se its1 where p: "pretrained_loaded ext opt (load_only_params cfg) = (opt1, se, its1)"
    by (metis prod.exhaust)
  show ?thesis
  proof (cases "pretrained_model cfg \<noteq> [] \<and> second_stage_load_pretrained cfg")
    case True
    from assms have "cur = cur0\<lparr>start_epoch := se\<rparr> \<and> iters st = 0 \<and> param_groups st = opt1 \<and> grads st = m"
      by (auto simp: startup_def a b c p True hu bind_err_def Let_def split: if_splits)
    with a b c p True show ?thesis by auto
  next
    case False
    from assms have "cur = cur0 \<and> iters st = 0 \<and> param_groups st = opt \<and> grads st = m"
      using False by (auto simp: startup_def a b c hu bind_err_def Let_def split: if_splits)
    with a b c False show ?thesis by auto
  qed
qed



lemma main_startup:
  "startup cfg ext = Inr (cur, st) \<Longrightarrow> main nm cfg ext ds = training_run nm cfg cur ds st"
  by (simp add: main_def bind_err_def)

lemma load_first_stage_Inr:
  assumes "load_first_stage cfg ext = Inr (cur, its, m)"
    and "\<not> (pretrained_model cfg \<noteq> [] \<and> second_stage_load_pretrained cfg)"
  shows "first_stage_path cfg \<noteq> []
       \<and> cur = \<lparr>start_epoch = fst (first_stage_loaded ext),
                 epochs = cfg_epochs cfg + fst (first_stage_loaded ext),
                 diff_epoch = cfg_diff_epoch cfg + fst (first_stage_loaded ext),
                 joint_epoch = cfg_joint_epoch cfg + fst (first_stage_loaded ext)\<rparr>
       \<and> its = snd (first_stage_loaded ext)"
proof -
  have p: "first_stage_path cfg \<noteq> []"
    using assms by (cases "first_stage_path cfg = []") (simp_all add: load_first_stage_def)
  obtain se i0 where f: "first_stage_loaded ext = (se, i0)" by (metis prod.exhaust)
  from assms p f show ?thesis
    by (auto simp: load_first_stage_def bind_err_Inr)
qed

text \<open>The start-up of the demo run, and of the restart from the demo checkpoint.\<close>

lemma demo_startup:
  "\<exists>cur st. startup demo_config demo_externals = Inr (cur, st)"
  by (simp add: startup_def load_first_stage_def demo_config_def demo_externals_def
        copy_style_encoder_def demo_model_def has_units_def scheduler_params_dict_def
        set_max_lr_def adjust_optimizers_def adjust_unit_def demo_build_optimizer_def
        bind_err_def Let_def)

lemma resume_startup:
  "\<exists>cur st. startup resume_config resume_externals = Inr (cur, st)"
  by (simp add: startup_def load_first_stage_def resume_config_def resume_externals_def
        demo_config_def demo_externals_def load_checkpoint_spec_def demo_checkpoint_def
        demo_optimizers_def
        copy_style_encoder_def demo_model_def has_units_def scheduler_params_dict_def
        set_max_lr_def adjust_optimizers_def adjust_unit_def demo_build_optimizer_def
        bind_err_def Let_def)

lemma demo_save:
  "save_checkpoint exact_numerics demo_config 4 (6, 40, 4, 2) demo_state
     = Inr (demo_state\<lparr>best_loss := Some 3\<rparr>, Some demo_checkpoint)"
proof -
  have ld: "loss_div exact_numerics 6 2 = 3" by (simp add: exact_numerics_def)
  have sf: "save_freq demo_config = 5" by (simp add: demo_config_def)
  show ?thesis
    by (simp add: save_checkpoint_def sf ld demo_state_def demo_checkpoint_def)
qed

text \<open>
  C7: a run that starts from the first-stage checkpoint (the only run that does not load a
  pretrained second-stage model) has a first-stage path, and its thresholds are the
  configured ones plus the start epoch that \<^verbatim>\<open>load_checkpoint\<close> returned for that
  checkpoint: \<open>diff_epoch\<close>, \<open>joint_epoch\<close> and the number of epochs alike. The offset is
  taken at start-up: the whole run is the epoch loop with these thresholds.
\<close>

theorem first_stage_offsets_thresholds:
  assumes "startup cfg ext = Inr (cur, st)"
    and "\<not> (pretrained_model cfg \<noteq> [] \<and> second_stage_load_pretrained cfg)"
  shows "first_stage_path cfg \<noteq> []
       \<and> start_epoch cur = fst (first_stage_loaded ext)
       \<and> diff_epoch cur = cfg_diff_epoch cfg + fst (first_stage_loaded ext)
       \<and> joint_epoch cur = cfg_joint_epoch cfg + fst (first_stage_loaded ext)
       \<and> epochs cur = cfg_epochs cfg + fst (first_stage_loaded ext)
       \<and> main nm cfg ext ds = training_run nm cfg cur ds st"
proof -
  from startup_Inr[OF assms(1)] assms(2) obtain its where
    l: "load_first_stage cfg ext = Inr (cur, its, grads st)"
    by auto
  from load_first_stage_Inr[OF l assms(2)] main_startup[OF assms(1)] show ?thesis by simp
qed

text \<open>With a configured \<open>diff_epoch\<close> of 10 and a first-stage checkpoint that gives the
  start epoch 5, the run has the thresholds 15 and 35 and ends before epoch 55.\<close>

theorem first_stage_offsets_thresholds_witness:
  "cfg_diff_epoch demo_config = 10 \<and> fst (first_stage_loaded demo_externals) = 5
   \<and> (\<exists>cur st. startup demo_config demo_externals = Inr (cur, st)
         \<and> start_epoch cur = 5 \<and> diff_epoch cur = 15 \<and> joint_epoch cur = 35 \<and> epochs cur = 55)"
proof -
  obtain cur st where s: "startup demo_config demo_externals = Inr (cur, st)"
    using demo_startup by blast
  have n: "\<not> (pretrained_model demo_config \<noteq> [] \<and> second_stage_load_pretrained demo_config)"
    by (simp add: demo_config_def)
  have v: "cfg_diff_epoch demo_config = 10" "cfg_joint_epoch demo_config = 30"
    "cfg_epochs demo_config = 50" "fst (first_stage_loaded demo_externals) = 5"
    by (simp_all add: demo_config_def demo_externals_def)
  from first_stage_offsets_thresholds[OF s n, where nm = exact_numerics and ds = "\<lambda>e. demo_epoch"]
  have "start_epoch cur = 5 \<and> diff_epoch cur = 15 \<and> joint_epoch cur = 35 \<and> epochs cur = 55"
    by (simp add: v)
  with s v show ?thesis by blast
qed

text \<open>
  C2: a checkpoint holds the hyperparameters of the optimizers, the iteration counter and
  the epoch of the state that wrote it. A run that loads it with
  \<^verbatim>\<open>load_only_params = False\<close>, through a \<^verbatim>\<open>load_checkpoint\<close> that returns what the
  checkpoint holds, starts with the saved optimizers and at the saved epoch, but with the
  iteration counter 0: line 182 assigns \<^verbatim>\<open>iters = 0\<close> after the call of line 172 has
  assigned the loaded counter.
\<close>

theorem resume_restarts_iteration_counter:
  assumes "save_checkpoint nm cfg epoch acc st0 = Inr (st1, Some ck)"
    and "pretrained_model cfg' \<noteq> []" and "second_stage_load_pretrained cfg'"
    and "\<not> load_only_params cfg'"
    and "pretrained_loaded ext = load_checkpoint_spec ck"
    and "startup cfg' ext = Inr (cur, st)"
  shows "ck_optimizer ck = param_groups st0 \<and> ck_iters ck = iters st0 \<and> ck_epoch ck = epoch
       \<and> param_groups st = param_groups st0 \<and> start_epoch cur = epoch
       \<and> iters st = 0"
proof -
  from save_checkpoint_param_groups[OF assms(1)] have
    c: "ck_optimizer ck = param_groups st0" "ck_iters ck = iters st0" "ck_epoch ck = epoch"
    by simp_all
  from startup_Inr[OF assms(6)] assms(2,3) obtain cur0 opt where
    p: "param_groups st = fst (pretrained_loaded ext opt (load_only_params cfg'))"
    and q: "cur = cur0\<lparr>start_epoch := fst (snd (pretrained_loaded ext opt (load_only_params cfg')))\<rparr>"
    and i: "iters st = 0"
    by auto
  from p q assms(4,5) have "param_groups st = ck_optimizer ck" "start_epoch cur = ck_epoch ck"
    by (simp_all add: load_checkpoint_spec_def)
  with c i show ?thesis by simp
qed

text \<open>The demo state is at iteration 7 when it writes its checkpoint at the end of epoch 4;
  the run that loads this checkpoint starts at iteration 0.\<close>

theorem resume_restarts_iteration_counter_witness:
  "save_checkpoint exact_numerics demo_config 4 (6, 40, 4, 2) demo_state
     = Inr (demo_state\<lparr>best_loss := Some 3\<rparr>, Some demo_checkpoint)
   \<and> iters demo_state = 7 \<and> ck_iters demo_checkpoint = 7
   \<and> (\<exists>cur st. startup resume_config resume_externals = Inr (cur, st)
         \<and> param_groups st = param_groups demo_state \<and> start_epoch cur = 4
         \<and> iters st = 0 \<and> iters st \<noteq> ck_iters demo_checkpoint)"
proof -
  obtain cur st where s: "startup resume_config resume_externals = Inr (cur, st)"
    using resume_startup by blast
  have h: "pretrained_model resume_config \<noteq> []" "second_stage_load_pretrained resume_config"
    "\<not> load_only_params resume_config"
    "pretrained_loaded resume_externals = load_checkpoint_spec demo_checkpoint"
    by (simp_all add: resume_config_def resume_externals_def)
  have v: "iters demo_state = 7" "ck_iters demo_checkpoint = 7"
    by (simp_all add: demo_state_def demo_checkpoint_def)
  from resume_restarts_iteration_counter[OF demo_save h s]
  have "param_groups st = param_groups demo_state \<and> start_epoch cur = 4 \<and> iters st = 0"
    by simp
  then have "param_groups st = param_groups demo_state \<and> start_epoch cur = 4
         \<and> iters st = 0 \<and> iters st \<noteq> ck_iters demo_checkpoint"
    by (simp add: v)
  with s have "\<exists>cur st. startup resume_config resume_externals = Inr (cur, st)
         \<and> param_groups st = param_groups demo_state \<and> start_epoch cur = 4
         \<and> iters st = 0 \<and> iters st \<noteq> ck_iters demo_checkpoint"
    by blast
  with demo_save v show ?thesis by blast
qed








end
